theory Spec2Isabelle
  imports Complex_Main "HOL-Library.Word"
begin

section \<open>The solver library, as the wrapper sees it\<close>

text \<open>
  The wrapper in \<^verbatim>\<open>libecole/src/scip/model.cpp\<close> drives an external solver library
  through its C interface. The library is not part of the repository: what the wrapper
  reads of an instance (its stage, its counts and arrays, its parameters) is a field of
  the record \<open>SCIP\<close> below, named after the library call that reads it.
\<close>

type_synonym c_int = "32 word"
type_synonym size_t = "64 word"
type_synonym SCIP_Longint = "64 word"

datatype SCIP_STAGE =
    SCIP_STAGE_INIT
  | SCIP_STAGE_PROBLEM
  | SCIP_STAGE_TRANSFORMING
  | SCIP_STAGE_TRANSFORMED
  | SCIP_STAGE_INITPRESOLVE
  | SCIP_STAGE_PRESOLVING
  | SCIP_STAGE_EXITPRESOLVE
  | SCIP_STAGE_PRESOLVED
  | SCIP_STAGE_INITSOLVE
  | SCIP_STAGE_SOLVING
  | SCIP_STAGE_SOLVED
  | SCIP_STAGE_EXITSOLVE
  | SCIP_STAGE_FREETRANS
  | SCIP_STAGE_FREE

datatype SCIP_RETCODE =
    SCIP_OKAY
  | SCIP_ERROR
  | SCIP_NOMEMORY
  | SCIP_READERROR
  | SCIP_NOFILE
  | SCIP_INVALIDCALL
  | SCIP_PARAMETERUNKNOWN
  | SCIP_PARAMETERWRONGTYPE
  | SCIP_PARAMETERWRONGVAL

datatype SCIP_PARAMTYPE =
    SCIP_PARAMTYPE_BOOL
  | SCIP_PARAMTYPE_INT
  | SCIP_PARAMTYPE_LONGINT
  | SCIP_PARAMTYPE_REAL
  | SCIP_PARAMTYPE_CHAR
  | SCIP_PARAMTYPE_STRING

datatype SCIP_VARTYPE =
    SCIP_VARTYPE_BINARY
  | SCIP_VARTYPE_INTEGER
  | SCIP_VARTYPE_IMPLINT
  | SCIP_VARTYPE_CONTINUOUS

datatype SCIP_BASESTAT =
    SCIP_BASESTAT_LOWER
  | SCIP_BASESTAT_BASIC
  | SCIP_BASESTAT_UPPER
  | SCIP_BASESTAT_ZERO

text \<open>
  A parameter value carries its type tag. \<open>double\<close> is read as a real number: no
  function below computes with it, values are only stored, moved and compared.
\<close>

datatype param_value =
    BoolV bool
  | IntV c_int
  | LongIntV SCIP_Longint
  | RealV real
  | CharV char
  | StringV string

text \<open>
  A stored parameter: its current value, and the library's own check of a new value
  (its range, whether the parameter is fixed). The check belongs to the library, so it
  is a field of the instance and every theorem holds for any such check.
\<close>

record SCIP_PARAM =
  param_data :: param_value
  param_accepts :: "param_value \<Rightarrow> bool"

text \<open>
  Modelled from the spec: what the solver reports about one variable, the quantities
  section 4.4 lists as variable features. The library computes them; the extractor only
  lays them out.
\<close>

record SCIP_VAR =
  var_objective :: real
  var_type :: SCIP_VARTYPE
  var_has_lower_bound :: bool
  var_has_upper_bound :: bool
  var_normed_reduced_cost :: real
  var_solution_value :: real
  var_solution_frac :: real
  var_is_solution_at_lower_bound :: bool
  var_is_solution_at_upper_bound :: bool
  var_scaled_age :: real
  var_incumbent_value :: real
  var_average_incumbent_value :: real
  var_basis_status :: SCIP_BASESTAT
  var_index :: nat

text \<open>
  Modelled from the spec: what the solver reports about one row of the active
  relaxation, the quantities section 4.4 lists as row features, and the nonzero
  coefficients of the row, each with the position of its variable.
\<close>

record SCIP_ROW =
  row_bias :: real
  row_objective_cosine_similarity :: real
  row_is_tight :: bool
  row_dual_solution_value :: real
  row_scaled_age :: real
  row_nonzeros :: "(nat \<times> real) list"

datatype SCIP_COL = SCIP_COL nat

text \<open>
  One solver instance. \<open>int\<close> results are 32-bit words, read with \<open>sint\<close>.
\<close>

record SCIP =
  SCIPgetStage :: SCIP_STAGE
  msghdlr_quiet :: bool
  paramset :: "string \<Rightarrow> SCIP_PARAM option"
  SCIPgetNVars :: c_int
  SCIPgetVars :: "SCIP_VAR list"
  SCIPgetNLPCols :: c_int
  SCIPgetLPCols :: "SCIP_COL list"
  SCIPgetNLPRows :: c_int
  SCIPgetLPRows :: "SCIP_ROW list"

text \<open>
  The calls that build or transform an instance are the library's business: the wrapper
  is verified for every behaviour of them, so they are parameters. \<open>SCIPcopy\<close> takes
  the source and the destination and gives the destination back; \<open>SCIPfree\<close> gives
  its return code for the instance it is to free.
\<close>

record scip_lib =
  SCIPcreate :: "SCIP_RETCODE \<times> SCIP"
  SCIPincludeDefaultPlugins :: "SCIP \<Rightarrow> SCIP_RETCODE \<times> SCIP"
  SCIPreadProb :: "SCIP \<Rightarrow> string \<Rightarrow> SCIP_RETCODE \<times> SCIP"
  SCIPcopy :: "SCIP \<Rightarrow> SCIP \<Rightarrow> SCIP_RETCODE \<times> SCIP"
  SCIPfree :: "SCIP \<Rightarrow> SCIP_RETCODE"

section \<open>Exceptions, results and the heap\<close>

text \<open>\<open>throw Exception("...")\<close> is \<open>Exception\<close> with its message.\<close>

datatype exception =
    Exception string
  | ScipException SCIP_RETCODE

text \<open>
  Modelled from the spec: \<open>make_exception\<close> is declared in a header that is not among
  the sources. By section 7 a failed library call is translated into an exception of the
  wrapper; the model keeps the return code in it.
\<close>

definition make_exception :: "SCIP_RETCODE \<Rightarrow> exception" where
  "make_exception retcode = ScipException retcode"

text \<open>The names section 7 of the spec gives to the failures met below.\<close>

definition UnknownParameter :: exception where
  "UnknownParameter = make_exception SCIP_PARAMETERUNKNOWN"

definition TypeMismatch :: exception where
  "TypeMismatch = make_exception SCIP_PARAMETERWRONGTYPE"

definition StageViolation :: "exception \<Rightarrow> bool" where
  "StageViolation e \<longleftrightarrow>
     e = Exception ''LP columns are only available during solving'' \<or>
     e = Exception ''LP rows are only available during solving''"

text \<open>
  A call returns, throws, or does neither: its behaviour is undefined (a null or
  dangling pointer is dereferenced, a signed operation overflows) or the program is
  terminated (an exception leaves a destructor or a \<open>noexcept\<close> function).
\<close>

datatype 'a outcome =
    Returns 'a
  | Throws exception
  | Undefined

text \<open>
  \<open>SCIP*\<close> is an address or null. The heap maps an address to the instance living
  there; a freed address is never handed out again, so a fresh address differs from
  every live one, as in C++.
\<close>

type_synonym SCIP_ptr = "nat option"
type_synonym heap = "SCIP option list"

definition deref :: "heap \<Rightarrow> SCIP_ptr \<Rightarrow> SCIP option" where
  "deref H p = (case p of None \<Rightarrow> None | Some a \<Rightarrow> if a < length H then H ! a else None)"

definition poke :: "heap \<Rightarrow> SCIP_ptr \<Rightarrow> SCIP \<Rightarrow> heap" where
  "poke H p s = (case p of None \<Rightarrow> H | Some a \<Rightarrow> H[a := Some s])"

text \<open>
  Modelled from the spec: \<open>scip::call\<close> is declared in \<^verbatim>\<open>scip/utils.hpp\<close>, not
  among the sources. By section 7 no failure of a library call is swallowed: every
  return code but \<open>SCIP_OKAY\<close> is thrown as an exception.
\<close>

definition call :: "SCIP_RETCODE \<Rightarrow> unit outcome" where
  "call retcode = (if retcode = SCIP_OKAY then Returns () else Throws (make_exception retcode))"

text \<open>
  \<open>Deleter<SCIP>::operator()\<close>: \<open>SCIPfree\<close> through \<open>scip::call\<close>. The instance is
  gone when \<open>SCIPfree\<close> succeeds; when it fails the exception is thrown and the heap
  is left as it was.
\<close>

definition Deleter :: "scip_lib \<Rightarrow> heap \<Rightarrow> SCIP_ptr \<Rightarrow> unit outcome \<times> heap" where
  "Deleter L H p =
     (case p of
        None \<Rightarrow> (Undefined, H)
      | Some a \<Rightarrow>
          (case deref H p of
             None \<Rightarrow> (Undefined, H)
           | Some s \<Rightarrow>
               (let retcode = SCIPfree L s
                in (call retcode, if retcode = SCIP_OKAY then H[a := None] else H))))"

text \<open>
  What \<open>unique_ptr\<close> does with the pointer it gives up, in its destructor and in its
  assignment: nothing for null, the deleter otherwise. Both are \<open>noexcept\<close>, so a
  deleter that throws terminates the program: there is no heap to go on with.
\<close>

definition unique_ptr_delete :: "scip_lib \<Rightarrow> heap \<Rightarrow> SCIP_ptr \<Rightarrow> heap option" where
  "unique_ptr_delete L H p =
     (if p = None then Some H
      else
        (case Deleter L H p of
           (Returns _, H') \<Rightarrow> Some H'
         | (Throws e, H') \<Rightarrow> None
         | (Undefined, H') \<Rightarrow> None))"

section \<open>Creating and copying instances\<close>

text \<open>
  \<open>create()\<close>: \<open>SCIPcreate\<close> through \<open>scip::call\<close>, the message handler set quiet,
  the raw pointer wrapped in a \<open>unique_ptr\<close>. Stateful functions return their result
  together with the heap they leave.
\<close>

definition create :: "scip_lib \<Rightarrow> heap \<Rightarrow> SCIP_ptr outcome \<times> heap" where
  "create L H =
     (case SCIPcreate L of (retcode, fresh) \<Rightarrow>
        (case call retcode of
           Returns _ \<Rightarrow>
             (let scip_raw = length H;
                  H' = H @ [Some (fresh\<lparr>msghdlr_quiet := True\<rparr>)]
              in (Returns (Some scip_raw), H'))
         | Throws e \<Rightarrow> (Throws e, H)
         | Undefined \<Rightarrow> (Undefined, H)))"

text \<open>
  \<open>copy(source)\<close>. The mutex only orders concurrent callers and has no effect on one
  thread. When \<open>SCIPcopy\<close> fails, the exception unwinds through \<open>dest\<close>, whose
  destructor deletes the new instance.
\<close>

definition copy :: "scip_lib \<Rightarrow> heap \<Rightarrow> SCIP_ptr \<Rightarrow> SCIP_ptr outcome \<times> heap" where
  "copy L H source =
     (if source = None then (Returns None, H)
      else
        (case deref H source of
           None \<Rightarrow> (Undefined, H)
         | Some src \<Rightarrow>
             (if SCIPgetStage src = SCIP_STAGE_INIT then create L H
              else
                (case create L H of
                   (Returns dest, H1) \<Rightarrow>
                     (case deref H1 dest of
                        None \<Rightarrow> (Undefined, H1)
                      | Some d \<Rightarrow>
                          (case SCIPcopy L src d of (retcode, d') \<Rightarrow>
                             (case call retcode of
                                Returns _ \<Rightarrow> (Returns dest, poke H1 dest d')
                              | Throws e \<Rightarrow>
                                  (case unique_ptr_delete L (poke H1 dest d') dest of
                                     Some H2 \<Rightarrow> (Throws e, H2)
                                   | None \<Rightarrow> (Undefined, poke H1 dest d'))
                              | Undefined \<Rightarrow> (Undefined, H1))))
                 | (Throws e, H1) \<Rightarrow> (Throws e, H1)
                 | (Undefined, H1) \<Rightarrow> (Undefined, H1)))))"

section \<open>The handle\<close>

text \<open>\<open>class Model\<close> has one member, \<open>unique_ptr<SCIP> scip\<close>.\<close>

record Model =
  scip :: SCIP_ptr

definition get_scip_ptr :: "Model \<Rightarrow> SCIP_ptr" where
  "get_scip_ptr this = scip this"

text \<open>\<open>Model::Model()\<close>: when the constructor body throws, the member is destroyed.\<close>

definition Model_default :: "scip_lib \<Rightarrow> heap \<Rightarrow> Model outcome \<times> heap" where
  "Model_default L H =
     (case create L H of
        (Returns p, H1) \<Rightarrow>
          (case deref H1 p of
             None \<Rightarrow> (Undefined, H1)
           | Some s \<Rightarrow>
               (case SCIPincludeDefaultPlugins L s of (retcode, s') \<Rightarrow>
                  (case call retcode of
                     Returns _ \<Rightarrow> (Returns \<lparr>scip = p\<rparr>, poke H1 p s')
                   | Throws e \<Rightarrow>
                       (case unique_ptr_delete L (poke H1 p s') p of
                          Some H2 \<Rightarrow> (Throws e, H2)
                        | None \<Rightarrow> (Undefined, poke H1 p s'))
                   | Undefined \<Rightarrow> (Undefined, H1))))
      | (Throws e, H1) \<Rightarrow> (Throws e, H1)
      | (Undefined, H1) \<Rightarrow> (Undefined, H1))"

text \<open>\<open>Model::Model(unique_ptr<SCIP>&&)\<close>.\<close>

definition Model_from_ptr :: "SCIP_ptr \<Rightarrow> Model outcome" where
  "Model_from_ptr p =
     (if p \<noteq> None then Returns \<lparr>scip = p\<rparr>
      else Throws (Exception ''Cannot create empty model''))"

text \<open>\<open>Model::Model(Model const&)\<close>.\<close>

definition Model_copy :: "scip_lib \<Rightarrow> heap \<Rightarrow> Model \<Rightarrow> Model outcome \<times> heap" where
  "Model_copy L H other =
     (case copy L H (get_scip_ptr other) of
        (Returns p, H1) \<Rightarrow> (Returns \<lparr>scip = p\<rparr>, H1)
      | (Throws e, H1) \<Rightarrow> (Throws e, H1)
      | (Undefined, H1) \<Rightarrow> (Undefined, H1))"

text \<open>
  \<open>Model::operator=\<close> compares the addresses of two \<open>Model\<close> objects, so the objects
  live in a store of their own, by address. Assigning to the \<open>unique_ptr\<close> member
  installs the new pointer and then deletes the pointer owned before.
\<close>

type_synonym objects = "nat \<Rightarrow> Model"

definition Model_assign ::
  "scip_lib \<Rightarrow> objects \<Rightarrow> heap \<Rightarrow> nat \<Rightarrow> nat \<Rightarrow> nat outcome \<times> objects \<times> heap" where
  "Model_assign L objs H this other =
     (if other \<noteq> this then
        (case copy L H (get_scip_ptr (objs other)) of
           (Returns p, H1) \<Rightarrow>
             (case unique_ptr_delete L H1 (scip (objs this)) of
                Some H2 \<Rightarrow> (Returns this, objs(this := \<lparr>scip = p\<rparr>), H2)
              | None \<Rightarrow> (Undefined, objs(this := \<lparr>scip = p\<rparr>), H1))
         | (Throws e, H1) \<Rightarrow> (Throws e, objs, H1)
         | (Undefined, H1) \<Rightarrow> (Undefined, objs, H1))
      else (Returns this, objs, H))"

text \<open>\<open>Model::operator==\<close> and \<open>Model::operator!=\<close>: the pointers are compared.\<close>

definition Model_eq :: "Model \<Rightarrow> Model \<Rightarrow> bool" where
  "Model_eq this other \<longleftrightarrow> scip this = scip other"

definition Model_neq :: "Model \<Rightarrow> Model \<Rightarrow> bool" where
  "Model_neq this other \<longleftrightarrow> \<not> Model_eq this other"

text \<open>\<open>Model::read_prob\<close> and \<open>Model::from_file\<close>.\<close>

definition read_prob :: "scip_lib \<Rightarrow> heap \<Rightarrow> Model \<Rightarrow> string \<Rightarrow> unit outcome \<times> heap" where
  "read_prob L H this filename =
     (case deref H (get_scip_ptr this) of
        None \<Rightarrow> (Undefined, H)
      | Some s \<Rightarrow>
          (case SCIPreadProb L s filename of (retcode, s') \<Rightarrow>
             (call retcode, poke H (get_scip_ptr this) s')))"

definition from_file :: "scip_lib \<Rightarrow> heap \<Rightarrow> string \<Rightarrow> Model outcome \<times> heap" where
  "from_file L H filename =
     (case Model_default L H of
        (Returns model, H1) \<Rightarrow>
          (case read_prob L H1 model filename of
             (Returns _, H2) \<Rightarrow> (Returns model, H2)
           | (Throws e, H2) \<Rightarrow>
               (case unique_ptr_delete L H2 (scip model) of
                  Some H3 \<Rightarrow> (Throws e, H3)
                | None \<Rightarrow> (Undefined, H2))
           | (Undefined, H2) \<Rightarrow> (Undefined, H2))
      | (Throws e, H1) \<Rightarrow> (Throws e, H1)
      | (Undefined, H1) \<Rightarrow> (Undefined, H1))"

definition is_solved :: "heap \<Rightarrow> Model \<Rightarrow> bool outcome" where
  "is_solved H this =
     (case deref H (get_scip_ptr this) of
        None \<Rightarrow> Undefined
      | Some s \<Rightarrow> Returns (SCIPgetStage s = SCIP_STAGE_SOLVED))"

section \<open>Views\<close>

text \<open>
  A view is built from the instance pointer, the array the library hands out and a
  length. \<open>static_cast<std::size_t>\<close> of an \<open>int\<close> extends its sign to 64 bits.
\<close>

record 'a View =
  view_scip :: SCIP_ptr
  view_data :: "'a list"
  view_size :: size_t

definition static_cast_size_t :: "c_int \<Rightarrow> size_t" where
  "static_cast_size_t n = scast n"

definition variables :: "heap \<Rightarrow> Model \<Rightarrow> SCIP_VAR View outcome" where
  "variables H this =
     (let scip_ptr = get_scip_ptr this in
      case deref H scip_ptr of
        None \<Rightarrow> Undefined
      | Some s \<Rightarrow>
          (let n_vars = static_cast_size_t (SCIPgetNVars s)
           in Returns \<lparr>view_scip = scip_ptr, view_data = SCIPgetVars s, view_size = n_vars\<rparr>))"

definition lp_columns :: "heap \<Rightarrow> Model \<Rightarrow> SCIP_COL View outcome" where
  "lp_columns H this =
     (let scip_ptr = get_scip_ptr this in
      case deref H scip_ptr of
        None \<Rightarrow> Undefined
      | Some s \<Rightarrow>
          if SCIPgetStage s \<noteq> SCIP_STAGE_SOLVING
          then Throws (Exception ''LP columns are only available during solving'')
          else
            (let n_cols = static_cast_size_t (SCIPgetNLPCols s)
             in Returns \<lparr>view_scip = scip_ptr, view_data = SCIPgetLPCols s, view_size = n_cols\<rparr>))"

definition lp_rows :: "heap \<Rightarrow> Model \<Rightarrow> SCIP_ROW View outcome" where
  "lp_rows H this =
     (let scip_ptr = get_scip_ptr this in
      case deref H scip_ptr of
        None \<Rightarrow> Undefined
      | Some s \<Rightarrow>
          if SCIPgetStage s \<noteq> SCIP_STAGE_SOLVING
          then Throws (Exception ''LP rows are only available during solving'')
          else
            (let n_rows = static_cast_size_t (SCIPgetNLPRows s)
             in Returns \<lparr>view_scip = scip_ptr, view_data = SCIPgetLPRows s, view_size = n_rows\<rparr>))"

section \<open>Parameters\<close>

datatype ParamType =
    ParamType_Bool
  | ParamType_Int
  | ParamType_LongInt
  | ParamType_Real
  | ParamType_Char
  | ParamType_String

definition type_tag :: "param_value \<Rightarrow> SCIP_PARAMTYPE" where
  "type_tag v =
     (case v of
        BoolV _ \<Rightarrow> SCIP_PARAMTYPE_BOOL
      | IntV _ \<Rightarrow> SCIP_PARAMTYPE_INT
      | LongIntV _ \<Rightarrow> SCIP_PARAMTYPE_LONGINT
      | RealV _ \<Rightarrow> SCIP_PARAMTYPE_REAL
      | CharV _ \<Rightarrow> SCIP_PARAMTYPE_CHAR
      | StringV _ \<Rightarrow> SCIP_PARAMTYPE_STRING)"

text \<open>
  Modelled from the spec: the library's parameter store. By section 3 a parameter is a
  named setting with a type tag, looked up by name.
\<close>

definition SCIPgetParam :: "SCIP \<Rightarrow> string \<Rightarrow> SCIP_PARAM option" where
  "SCIPgetParam s name = paramset s name"

text \<open>Modelled from the spec: the type tag of a parameter is that of its value.\<close>

definition SCIPparamGetType :: "SCIP_PARAM \<Rightarrow> SCIP_PARAMTYPE" where
  "SCIPparamGetType scip_param = type_tag (param_data scip_param)"

text \<open>
  Modelled from the spec: a write must match the declared type exactly (section 3); a
  missing name is one failure and a disagreeing tag another (section 4.1). A write is
  also checked by the library itself (\<open>param_accepts\<close>), and a failed write changes
  nothing.
\<close>

definition param_write :: "SCIP \<Rightarrow> string \<Rightarrow> param_value \<Rightarrow> SCIP_RETCODE \<times> SCIP" where
  "param_write s name v =
     (case SCIPgetParam s name of
        None \<Rightarrow> (SCIP_PARAMETERUNKNOWN, s)
      | Some scip_param \<Rightarrow>
          if SCIPparamGetType scip_param \<noteq> type_tag v then (SCIP_PARAMETERWRONGTYPE, s)
          else if \<not> param_accepts scip_param v then (SCIP_PARAMETERWRONGVAL, s)
          else (SCIP_OKAY, s\<lparr>paramset := (paramset s)(name \<mapsto> scip_param\<lparr>param_data := v\<rparr>)\<rparr>))"

text \<open>
  Modelled from the spec: a read fails on a missing name and on a disagreeing type tag
  (section 4.1); \<open>proj\<close> selects the values of the requested type. The value is
  handed back through a pointer, which is written only on success.
\<close>

definition param_read ::
  "(param_value \<Rightarrow> 'a option) \<Rightarrow> SCIP \<Rightarrow> string \<Rightarrow> SCIP_RETCODE \<times> 'a option" where
  "param_read proj s name =
     (case SCIPgetParam s name of
        None \<Rightarrow> (SCIP_PARAMETERUNKNOWN, None)
      | Some scip_param \<Rightarrow>
          (case proj (param_data scip_param) of
             None \<Rightarrow> (SCIP_PARAMETERWRONGTYPE, None)
           | Some x \<Rightarrow> (SCIP_OKAY, Some x)))"

text \<open>
  Modelled from the spec: the typed writes and reads of the library, one pair per type
  tag of section 3.
\<close>

definition SCIPsetBoolParam :: "SCIP \<Rightarrow> string \<Rightarrow> bool \<Rightarrow> SCIP_RETCODE \<times> SCIP" where
  "SCIPsetBoolParam s name x = param_write s name (BoolV x)"

definition SCIPsetCharParam :: "SCIP \<Rightarrow> string \<Rightarrow> char \<Rightarrow> SCIP_RETCODE \<times> SCIP" where
  "SCIPsetCharParam s name x = param_write s name (CharV x)"

definition SCIPsetIntParam :: "SCIP \<Rightarrow> string \<Rightarrow> c_int \<Rightarrow> SCIP_RETCODE \<times> SCIP" where
  "SCIPsetIntParam s name x = param_write s name (IntV x)"

definition SCIPsetLongintParam :: "SCIP \<Rightarrow> string \<Rightarrow> SCIP_Longint \<Rightarrow> SCIP_RETCODE \<times> SCIP" where
  "SCIPsetLongintParam s name x = param_write s name (LongIntV x)"

definition SCIPsetRealParam :: "SCIP \<Rightarrow> string \<Rightarrow> real \<Rightarrow> SCIP_RETCODE \<times> SCIP" where
  "SCIPsetRealParam s name x = param_write s name (RealV x)"

definition SCIPsetStringParam :: "SCIP \<Rightarrow> string \<Rightarrow> string \<Rightarrow> SCIP_RETCODE \<times> SCIP" where
  "SCIPsetStringParam s name x = param_write s name (StringV x)"

definition SCIPgetBoolParam :: "SCIP \<Rightarrow> string \<Rightarrow> SCIP_RETCODE \<times> bool option" where
  "SCIPgetBoolParam = param_read (\<lambda>v. case v of BoolV x \<Rightarrow> Some x | _ \<Rightarrow> None)"

definition SCIPgetCharParam :: "SCIP \<Rightarrow> string \<Rightarrow> SCIP_RETCODE \<times> char option" where
  "SCIPgetCharParam = param_read (\<lambda>v. case v of CharV x \<Rightarrow> Some x | _ \<Rightarrow> None)"

definition SCIPgetIntParam :: "SCIP \<Rightarrow> string \<Rightarrow> SCIP_RETCODE \<times> c_int option" where
  "SCIPgetIntParam = param_read (\<lambda>v. case v of IntV x \<Rightarrow> Some x | _ \<Rightarrow> None)"

definition SCIPgetLongintParam :: "SCIP \<Rightarrow> string \<Rightarrow> SCIP_RETCODE \<times> SCIP_Longint option" where
  "SCIPgetLongintParam = param_read (\<lambda>v. case v of LongIntV x \<Rightarrow> Some x | _ \<Rightarrow> None)"

definition SCIPgetRealParam :: "SCIP \<Rightarrow> string \<Rightarrow> SCIP_RETCODE \<times> real option" where
  "SCIPgetRealParam = param_read (\<lambda>v. case v of RealV x \<Rightarrow> Some x | _ \<Rightarrow> None)"

definition SCIPgetStringParam :: "SCIP \<Rightarrow> string \<Rightarrow> SCIP_RETCODE \<times> string option" where
  "SCIPgetStringParam = param_read (\<lambda>v. case v of StringV x \<Rightarrow> Some x | _ \<Rightarrow> None)"

text \<open>\<open>Model::get_param_type\<close>. The \<open>default\<close> branch of its switch has no tag left.\<close>

definition get_param_type :: "heap \<Rightarrow> Model \<Rightarrow> string \<Rightarrow> ParamType outcome" where
  "get_param_type H this name =
     (case deref H (get_scip_ptr this) of
        None \<Rightarrow> Undefined
      | Some s \<Rightarrow>
          (case SCIPgetParam s name of
             None \<Rightarrow> Throws (make_exception SCIP_PARAMETERUNKNOWN)
           | Some scip_param \<Rightarrow>
               (case SCIPparamGetType scip_param of
                  SCIP_PARAMTYPE_BOOL \<Rightarrow> Returns ParamType_Bool
                | SCIP_PARAMTYPE_INT \<Rightarrow> Returns ParamType_Int
                | SCIP_PARAMTYPE_LONGINT \<Rightarrow> Returns ParamType_LongInt
                | SCIP_PARAMTYPE_REAL \<Rightarrow> Returns ParamType_Real
                | SCIP_PARAMTYPE_CHAR \<Rightarrow> Returns ParamType_Char
                | SCIP_PARAMTYPE_STRING \<Rightarrow> Returns ParamType_String)))"

text \<open>
  \<open>std::string::c_str\<close>: a C string ends at its first zero byte, so the characters
  after one are not part of what is passed on.
\<close>

definition c_str :: "string \<Rightarrow> string" where
  "c_str x = takeWhile (\<lambda>c. c \<noteq> CHR 0x00) x"

text \<open>\<open>Model::get_param_type(std::string const&)\<close>.\<close>

definition get_param_type_std_string :: "heap \<Rightarrow> Model \<Rightarrow> string \<Rightarrow> ParamType outcome" where
  "get_param_type_std_string H this name = get_param_type H this (c_str name)"

text \<open>
  \<open>scip::call\<close> on a library function that works on the instance behind a pointer:
  \<open>call_set\<close> for one that changes the instance, \<open>call_get\<close> for one that writes
  its result into a local that was value-initialised to \<open>init\<close>.
\<close>

definition call_set ::
  "heap \<Rightarrow> SCIP_ptr \<Rightarrow> (SCIP \<Rightarrow> SCIP_RETCODE \<times> SCIP) \<Rightarrow> unit outcome \<times> heap" where
  "call_set H p f =
     (case deref H p of
        None \<Rightarrow> (Undefined, H)
      | Some s \<Rightarrow> (case f s of (retcode, s') \<Rightarrow> (call retcode, poke H p s')))"

definition call_get ::
  "heap \<Rightarrow> SCIP_ptr \<Rightarrow> (SCIP \<Rightarrow> SCIP_RETCODE \<times> 'a option) \<Rightarrow> 'a \<Rightarrow> 'a outcome" where
  "call_get H p f init =
     (case deref H p of
        None \<Rightarrow> Undefined
      | Some s \<Rightarrow>
          (case f s of (retcode, written) \<Rightarrow>
             (case call retcode of
                Returns _ \<Rightarrow> Returns (case written of None \<Rightarrow> init | Some x \<Rightarrow> x)
              | Throws e \<Rightarrow> Throws e
              | Undefined \<Rightarrow> Undefined)))"

text \<open>
  The specialisations of \<open>internal::set_scip_param\<close>, one per C++ type. A
  \<open>const char*\<close> is modelled by the characters before its terminator; the
  \<open>std::string\<close> specialisation passes \<open>value.c_str()\<close> to it.
\<close>

definition set_scip_param_Bool :: "heap \<Rightarrow> SCIP_ptr \<Rightarrow> string \<Rightarrow> bool \<Rightarrow> unit outcome \<times> heap" where
  "set_scip_param_Bool H p name x = call_set H p (\<lambda>s. SCIPsetBoolParam s name x)"

definition set_scip_param_Char :: "heap \<Rightarrow> SCIP_ptr \<Rightarrow> string \<Rightarrow> char \<Rightarrow> unit outcome \<times> heap" where
  "set_scip_param_Char H p name x = call_set H p (\<lambda>s. SCIPsetCharParam s name x)"

definition set_scip_param_Int :: "heap \<Rightarrow> SCIP_ptr \<Rightarrow> string \<Rightarrow> c_int \<Rightarrow> unit outcome \<times> heap" where
  "set_scip_param_Int H p name x = call_set H p (\<lambda>s. SCIPsetIntParam s name x)"

definition set_scip_param_LongInt ::
  "heap \<Rightarrow> SCIP_ptr \<Rightarrow> string \<Rightarrow> SCIP_Longint \<Rightarrow> unit outcome \<times> heap" where
  "set_scip_param_LongInt H p name x = call_set H p (\<lambda>s. SCIPsetLongintParam s name x)"

definition set_scip_param_Real :: "heap \<Rightarrow> SCIP_ptr \<Rightarrow> string \<Rightarrow> real \<Rightarrow> unit outcome \<times> heap" where
  "set_scip_param_Real H p name x = call_set H p (\<lambda>s. SCIPsetRealParam s name x)"

definition set_scip_param_String :: "heap \<Rightarrow> SCIP_ptr \<Rightarrow> string \<Rightarrow> string \<Rightarrow> unit outcome \<times> heap" where
  "set_scip_param_String H p name x = call_set H p (\<lambda>s. SCIPsetStringParam s name x)"

definition set_scip_param_std_string ::
  "heap \<Rightarrow> SCIP_ptr \<Rightarrow> string \<Rightarrow> string \<Rightarrow> unit outcome \<times> heap" where
  "set_scip_param_std_string H p name x = set_scip_param_String H p name (c_str x)"

text \<open>The specialisations of \<open>internal::get_scip_param\<close>.\<close>

definition get_scip_param_Bool :: "heap \<Rightarrow> SCIP_ptr \<Rightarrow> string \<Rightarrow> bool outcome" where
  "get_scip_param_Bool H p name = call_get H p (\<lambda>s. SCIPgetBoolParam s name) False"

definition get_scip_param_Char :: "heap \<Rightarrow> SCIP_ptr \<Rightarrow> string \<Rightarrow> char outcome" where
  "get_scip_param_Char H p name = call_get H p (\<lambda>s. SCIPgetCharParam s name) (CHR 0x00)"

definition get_scip_param_Int :: "heap \<Rightarrow> SCIP_ptr \<Rightarrow> string \<Rightarrow> c_int outcome" where
  "get_scip_param_Int H p name = call_get H p (\<lambda>s. SCIPgetIntParam s name) 0"

definition get_scip_param_LongInt :: "heap \<Rightarrow> SCIP_ptr \<Rightarrow> string \<Rightarrow> SCIP_Longint outcome" where
  "get_scip_param_LongInt H p name = call_get H p (\<lambda>s. SCIPgetLongintParam s name) 0"

definition get_scip_param_Real :: "heap \<Rightarrow> SCIP_ptr \<Rightarrow> string \<Rightarrow> real outcome" where
  "get_scip_param_Real H p name = call_get H p (\<lambda>s. SCIPgetRealParam s name) 0"

definition get_scip_param_String :: "heap \<Rightarrow> SCIP_ptr \<Rightarrow> string \<Rightarrow> string outcome" where
  "get_scip_param_String H p name = call_get H p (\<lambda>s. SCIPgetStringParam s name) []"

text \<open>
  A call \<open>set_scip_param(scip, name, value)\<close> is resolved by the C++ type of the
  value, one of seven; \<open>get_scip_param<T>(scip, name)\<close> by the type asked for, one
  of six.
\<close>

datatype cpp_value =
    Arg_SCIP_Bool bool
  | Arg_char char
  | Arg_int c_int
  | Arg_SCIP_Longint SCIP_Longint
  | Arg_SCIP_Real real
  | Arg_c_string string
  | Arg_std_string string

definition set_scip_param :: "heap \<Rightarrow> SCIP_ptr \<Rightarrow> string \<Rightarrow> cpp_value \<Rightarrow> unit outcome \<times> heap" where
  "set_scip_param H p name arg =
     (case arg of
        Arg_SCIP_Bool x \<Rightarrow> set_scip_param_Bool H p name x
      | Arg_char x \<Rightarrow> set_scip_param_Char H p name x
      | Arg_int x \<Rightarrow> set_scip_param_Int H p name x
      | Arg_SCIP_Longint x \<Rightarrow> set_scip_param_LongInt H p name x
      | Arg_SCIP_Real x \<Rightarrow> set_scip_param_Real H p name x
      | Arg_c_string x \<Rightarrow> set_scip_param_String H p name x
      | Arg_std_string x \<Rightarrow> set_scip_param_std_string H p name x)"

text \<open>The parameter value that reaches the library for a C++ value.\<close>

definition passed_value :: "cpp_value \<Rightarrow> param_value" where
  "passed_value arg =
     (case arg of
        Arg_SCIP_Bool x \<Rightarrow> BoolV x
      | Arg_char x \<Rightarrow> CharV x
      | Arg_int x \<Rightarrow> IntV x
      | Arg_SCIP_Longint x \<Rightarrow> LongIntV x
      | Arg_SCIP_Real x \<Rightarrow> RealV x
      | Arg_c_string x \<Rightarrow> StringV x
      | Arg_std_string x \<Rightarrow> StringV (c_str x))"

definition param_type :: "param_value \<Rightarrow> ParamType" where
  "param_type v =
     (case v of
        BoolV _ \<Rightarrow> ParamType_Bool
      | IntV _ \<Rightarrow> ParamType_Int
      | LongIntV _ \<Rightarrow> ParamType_LongInt
      | RealV _ \<Rightarrow> ParamType_Real
      | CharV _ \<Rightarrow> ParamType_Char
      | StringV _ \<Rightarrow> ParamType_String)"

definition get_scip_param :: "heap \<Rightarrow> SCIP_ptr \<Rightarrow> ParamType \<Rightarrow> string \<Rightarrow> param_value outcome" where
  "get_scip_param H p T name =
     (case T of
        ParamType_Bool \<Rightarrow> map_outcome BoolV (get_scip_param_Bool H p name)
      | ParamType_Int \<Rightarrow> map_outcome IntV (get_scip_param_Int H p name)
      | ParamType_LongInt \<Rightarrow> map_outcome LongIntV (get_scip_param_LongInt H p name)
      | ParamType_Real \<Rightarrow> map_outcome RealV (get_scip_param_Real H p name)
      | ParamType_Char \<Rightarrow> map_outcome CharV (get_scip_param_Char H p name)
      | ParamType_String \<Rightarrow> map_outcome StringV (get_scip_param_String H p name))"

text \<open>\<open>Cast_SFINAE<char, const char*>::operator char()\<close>.\<close>

definition Cast_SFINAE_char :: "string \<Rightarrow> char outcome" where
  "Cast_SFINAE_char val =
     (if length val = 1 then Returns (hd val)
      else Throws (Exception ''Can only convert a string with a single character to a char''))"

section \<open>The seed\<close>

text \<open>
  Modelled from the spec: \<open>get_param_explicit\<close> and \<open>set_param_explicit\<close> are
  templates of \<^verbatim>\<open>model.hpp\<close>, not among the sources. By section 4.1 a typed read or
  write of the handle fails on an unknown name and on a disagreeing type tag, which is
  what the typed accessors above do on the handle's own pointer.
\<close>

definition get_param_explicit_Int :: "heap \<Rightarrow> Model \<Rightarrow> string \<Rightarrow> c_int outcome" where
  "get_param_explicit_Int H this name = get_scip_param_Int H (get_scip_ptr this) name"

definition set_param_explicit_Int :: "heap \<Rightarrow> Model \<Rightarrow> string \<Rightarrow> c_int \<Rightarrow> unit outcome \<times> heap" where
  "set_param_explicit_Int H this name x = set_scip_param_Int H (get_scip_ptr this) name x"

text \<open>
  \<open>std::abs\<close> on \<open>int\<close>: the magnitude, and no defined behaviour when it is not an
  \<open>int\<close>, which happens at the least \<open>int\<close> only.
\<close>

definition std_abs :: "c_int \<Rightarrow> c_int option" where
  "std_abs n =
     (if sint n = - (2 ^ 31) then None
      else Some (if sint n < 0 then - n else n))"

text \<open>\<open>Model::seed() const\<close> and \<open>Model::seed(seed_v)\<close>.\<close>

definition seed :: "heap \<Rightarrow> Model \<Rightarrow> c_int outcome" where
  "seed H this = get_param_explicit_Int H this ''randomization/randomseedshift''"

definition seed_set :: "heap \<Rightarrow> Model \<Rightarrow> c_int \<Rightarrow> unit outcome \<times> heap" where
  "seed_set H this seed_v =
     (case std_abs seed_v of
        None \<Rightarrow> (Undefined, H)
      | Some magnitude \<Rightarrow>
          set_param_explicit_Int H this ''randomization/randomseedshift'' magnitude)"

section \<open>The bipartite observation\<close>

text \<open>
  \<^verbatim>\<open>node-bipartite.hpp\<close> declares the observation and the extractor. A two-dimensional
  \<open>xt::xtensor\<close> is its shape and its rows.
\<close>

type_synonym value_type = real

definition n_static_variable_features :: nat where
  "n_static_variable_features = 5"

definition n_dynamic_variable_features :: nat where
  "n_dynamic_variable_features = 15"

definition n_variable_features :: nat where
  "n_variable_features = n_static_variable_features + n_dynamic_variable_features"

definition n_static_row_features :: nat where
  "n_static_row_features = 2"

definition n_dynamic_row_features :: nat where
  "n_dynamic_row_features = 3"

definition n_row_features :: nat where
  "n_row_features = n_static_row_features + n_dynamic_row_features"

record xtensor2 =
  tensor_shape :: "nat \<times> nat"
  tensor_rows :: "value_type list list"

text \<open>
  Modelled from the spec: \<open>utility::coo_matrix\<close> is declared in a header that is not
  among the sources. By section 2 it stores (row, col, value) triples plus a shape.
\<close>

record coo_matrix =
  coo_values :: "value_type list"
  coo_indices :: "(nat \<times> nat) list"
  coo_shape :: "nat \<times> nat"

record NodeBipartiteObs =
  variable_features :: xtensor2
  row_features :: xtensor2
  edge_features :: coo_matrix

record NodeBipartite =
  the_cache :: NodeBipartiteObs
  use_cache :: bool
  cache_computed :: bool

text \<open>\<open>NodeBipartite(bool cache = false)\<close>, with the members' default values.\<close>

definition NodeBipartite_init :: "bool \<Rightarrow> NodeBipartite" where
  "NodeBipartite_init cache =
     \<lparr>the_cache =
        \<lparr>variable_features = \<lparr>tensor_shape = (0, 0), tensor_rows = []\<rparr>,
         row_features = \<lparr>tensor_shape = (0, 0), tensor_rows = []\<rparr>,
         edge_features = \<lparr>coo_values = [], coo_indices = [], coo_shape = (0, 0)\<rparr>\<rparr>,
      use_cache = cache, cache_computed = False\<rparr>"

text \<open>
  Modelled from the spec: a flag or a one-hot entry of section 4.4 is the number 1 or 0.
\<close>

definition flag :: "bool \<Rightarrow> value_type" where
  "flag b = (if b then 1 else 0)"

text \<open>
  Modelled from the spec: the 5 static columns of a variable (section 4.4), in the
  order of the enum.
\<close>

definition static_variable_features :: "SCIP_VAR \<Rightarrow> value_type list" where
  "static_variable_features var =
     [var_objective var,
      flag (var_type var = SCIP_VARTYPE_BINARY),
      flag (var_type var = SCIP_VARTYPE_INTEGER),
      flag (var_type var = SCIP_VARTYPE_IMPLINT),
      flag (var_type var = SCIP_VARTYPE_CONTINUOUS)]"

text \<open>
  Modelled from the spec: the 15 dynamic columns of a variable (section 4.4), in the
  order of the enum.
\<close>

definition dynamic_variable_features :: "SCIP_VAR \<Rightarrow> value_type list" where
  "dynamic_variable_features var =
     [flag (var_has_lower_bound var),
      flag (var_has_upper_bound var),
      var_normed_reduced_cost var,
      var_solution_value var,
      var_solution_frac var,
      flag (var_is_solution_at_lower_bound var),
      flag (var_is_solution_at_upper_bound var),
      var_scaled_age var,
      var_incumbent_value var,
      var_average_incumbent_value var,
      flag (var_basis_status var = SCIP_BASESTAT_LOWER),
      flag (var_basis_status var = SCIP_BASESTAT_BASIC),
      flag (var_basis_status var = SCIP_BASESTAT_UPPER),
      flag (var_basis_status var = SCIP_BASESTAT_ZERO),
      of_nat (var_index var)]"

text \<open>Modelled from the spec: the 2 static columns of a row (section 4.4).\<close>

definition static_row_features :: "SCIP_ROW \<Rightarrow> value_type list" where
  "static_row_features row =
     [row_bias row, row_objective_cosine_similarity row]"

text \<open>Modelled from the spec: the 3 dynamic columns of a row (section 4.4).\<close>

definition dynamic_row_features :: "SCIP_ROW \<Rightarrow> value_type list" where
  "dynamic_row_features row =
     [flag (row_is_tight row), row_dual_solution_value row, row_scaled_age row]"

text \<open>
  Modelled from the spec: by section 3 a view is an ordered, index-addressable sequence
  over entities of the instance, here the first \<open>view_size\<close> entries of its array.
\<close>

definition view_elements :: "'a View \<Rightarrow> 'a list" where
  "view_elements v = take (unat (view_size v)) (view_data v)"

text \<open>
  Modelled from the spec: by section 4.4 there is one edge per nonzero coefficient
  between a row of the relaxation and a variable, carrying the coefficient. The row is
  named by its position in the view, the variable by the position the row stores.
\<close>

definition edge_entries :: "SCIP_ROW list \<Rightarrow> ((nat \<times> nat) \<times> value_type) list" where
  "edge_entries rows =
     concat (map (\<lambda>(i, row). map (\<lambda>(j, coef). ((i, j), coef)) (row_nonzeros row))
                 (enumerate 0 rows))"


text \<open>
  Modelled from the spec: \<^verbatim>\<open>node-bipartite.cpp\<close> is not among the sources. By sections
  3 and 4.4 the full observation has one row of 20 columns per variable, one row of 5
  columns per row of the relaxation, and the edges in a matrix of shape rows by
  variables. By section 7 a read outside the solving stage surfaces as the handle's
  stage violation.
\<close>

definition extract_observation_fully :: "heap \<Rightarrow> Model \<Rightarrow> NodeBipartiteObs outcome" where
  "extract_observation_fully H model =
     (case variables H model of
        Returns var_view \<Rightarrow>
          (case lp_rows H model of
             Returns row_view \<Rightarrow>
               (let vars = view_elements var_view;
                    rows = view_elements row_view;
                    edges = edge_entries rows
                in Returns
                  \<lparr>variable_features =
                     \<lparr>tensor_shape = (length vars, n_variable_features),
                      tensor_rows =
                        map (\<lambda>var. static_variable_features var @ dynamic_variable_features var) vars\<rparr>,
                   row_features =
                     \<lparr>tensor_shape = (length rows, n_row_features),
                      tensor_rows =
                        map (\<lambda>row. static_row_features row @ dynamic_row_features row) rows\<rparr>,
                   edge_features =
                     \<lparr>coo_values = map snd edges, coo_indices = map fst edges,
                      coo_shape = (length rows, length vars)\<rparr>\<rparr>)
           | Throws e \<Rightarrow> Throws e
           | Undefined \<Rightarrow> Undefined)
      | Throws e \<Rightarrow> Throws e
      | Undefined \<Rightarrow> Undefined)"

text \<open>
  Modelled from the spec: by section 4.3, with a populated cache the static columns and
  the edge structure are the cached ones, and only the dynamic columns and the edge
  values are computed from the current state.
\<close>

definition extract_observation_from_cache ::
  "heap \<Rightarrow> Model \<Rightarrow> NodeBipartiteObs \<Rightarrow> NodeBipartiteObs outcome" where
  "extract_observation_from_cache H model cached =
     (case variables H model of
        Returns var_view \<Rightarrow>
          (case lp_rows H model of
             Returns row_view \<Rightarrow>
               (let vars = view_elements var_view;
                    rows = view_elements row_view
                in Returns
                  \<lparr>variable_features =
                     (variable_features cached)
                       \<lparr>tensor_rows :=
                          map2 (\<lambda>old var.
                                  take n_static_variable_features old @ dynamic_variable_features var)
                            (tensor_rows (variable_features cached)) vars\<rparr>,
                   row_features =
                     (row_features cached)
                       \<lparr>tensor_rows :=
                          map2 (\<lambda>old row.
                                  take n_static_row_features old @ dynamic_row_features row)
                            (tensor_rows (row_features cached)) rows\<rparr>,
                   edge_features =
                     (edge_features cached)\<lparr>coo_values := map snd (edge_entries rows)\<rparr>\<rparr>)
           | Throws e \<Rightarrow> Throws e
           | Undefined \<Rightarrow> Undefined)
      | Throws e \<Rightarrow> Throws e
      | Undefined \<Rightarrow> Undefined)"

text \<open>
  Modelled from the spec: by section 4.3 \<open>before_reset\<close> clears the flag of the cache
  and leaves \<open>use_cache\<close> alone.
\<close>

definition before_reset :: "NodeBipartite \<Rightarrow> Model \<Rightarrow> NodeBipartite" where
  "before_reset this model = this\<lparr>cache_computed := False\<rparr>"

text \<open>
  Modelled from the spec: by section 4.3 \<open>NodeBipartite::extract\<close> gives no
  observation when \<open>done\<close>; computes the full observation when caching is off or the cache is not
  populated, and then stores it if caching is on; and otherwise refreshes the cached
  observation. The extractor is returned with the result.
\<close>

definition NodeBipartite_extract ::
  "heap \<Rightarrow> NodeBipartite \<Rightarrow> Model \<Rightarrow> bool \<Rightarrow> NodeBipartiteObs option outcome \<times> NodeBipartite" where
  "NodeBipartite_extract H this model done =
     (if done then (Returns None, this)
      else if \<not> use_cache this \<or> \<not> cache_computed this then
        (case extract_observation_fully H model of
           Returns obs \<Rightarrow>
             (Returns (Some obs),
              if use_cache this then this\<lparr>the_cache := obs, cache_computed := True\<rparr> else this)
         | Throws e \<Rightarrow> (Throws e, this)
         | Undefined \<Rightarrow> (Undefined, this))
      else
        (case extract_observation_from_cache H model (the_cache this) of
           Returns obs \<Rightarrow> (Returns (Some obs), this)
         | Throws e \<Rightarrow> (Throws e, this)
         | Undefined \<Rightarrow> (Undefined, this)))"










section \<open>A small world to run the definitions on\<close>

text \<open>
  Two variables, one row \<open>x + 2 y \<le> 3\<close>, six parameters (one of each type), and a
  library that creates empty instances, loads this problem from \<^verbatim>\<open>demo.lp\<close>,
  copies everything but the message handler and frees without fail.
\<close>

definition any_value :: "param_value \<Rightarrow> bool" where
  "any_value v = True"

definition nonnegative_int :: "param_value \<Rightarrow> bool" where
  "nonnegative_int v = (case v of IntV x \<Rightarrow> 0 \<le> sint x | _ \<Rightarrow> False)"

definition demo_params :: "string \<Rightarrow> SCIP_PARAM option" where
  "demo_params = map_of
     [(''randomization/randomseedshift'',
         \<lparr>param_data = IntV 0, param_accepts = nonnegative_int\<rparr>),
      (''conflict/enable'', \<lparr>param_data = BoolV True, param_accepts = any_value\<rparr>),
      (''limits/nodes'', \<lparr>param_data = LongIntV (- 1), param_accepts = any_value\<rparr>),
      (''limits/time'', \<lparr>param_data = RealV 3600, param_accepts = any_value\<rparr>),
      (''nlp/solver'', \<lparr>param_data = StringV [], param_accepts = any_value\<rparr>),
      (''lp/pricing'', \<lparr>param_data = CharV CHR ''l'', param_accepts = any_value\<rparr>)]"

definition demo_x :: SCIP_VAR where
  "demo_x = \<lparr>var_objective = 1, var_type = SCIP_VARTYPE_BINARY,
     var_has_lower_bound = True, var_has_upper_bound = True,
     var_normed_reduced_cost = 0, var_solution_value = 1 / 2, var_solution_frac = 1 / 2,
     var_is_solution_at_lower_bound = False, var_is_solution_at_upper_bound = False,
     var_scaled_age = 0, var_incumbent_value = 0, var_average_incumbent_value = 0,
     var_basis_status = SCIP_BASESTAT_BASIC, var_index = 0\<rparr>"

definition demo_y :: SCIP_VAR where
  "demo_y = \<lparr>var_objective = 3, var_type = SCIP_VARTYPE_CONTINUOUS,
     var_has_lower_bound = True, var_has_upper_bound = False,
     var_normed_reduced_cost = 1, var_solution_value = 0, var_solution_frac = 0,
     var_is_solution_at_lower_bound = True, var_is_solution_at_upper_bound = False,
     var_scaled_age = 1, var_incumbent_value = 0, var_average_incumbent_value = 0,
     var_basis_status = SCIP_BASESTAT_LOWER, var_index = 1\<rparr>"

definition demo_row :: SCIP_ROW where
  "demo_row = \<lparr>row_bias = 3, row_objective_cosine_similarity = 7 / 10,
     row_is_tight = False, row_dual_solution_value = 0, row_scaled_age = 0,
     row_nonzeros = [(0, 1), (1, 2)]\<rparr>"

definition demo_empty :: SCIP where
  "demo_empty = \<lparr>SCIPgetStage = SCIP_STAGE_INIT, msghdlr_quiet = False,
     paramset = (\<lambda>name. None), SCIPgetNVars = 0, SCIPgetVars = [],
     SCIPgetNLPCols = 0, SCIPgetLPCols = [], SCIPgetNLPRows = 0, SCIPgetLPRows = []\<rparr>"

definition demo_problem :: SCIP where
  "demo_problem = \<lparr>SCIPgetStage = SCIP_STAGE_PROBLEM, msghdlr_quiet = True,
     paramset = demo_params, SCIPgetNVars = 2, SCIPgetVars = [demo_x, demo_y],
     SCIPgetNLPCols = 0, SCIPgetLPCols = [], SCIPgetNLPRows = 0, SCIPgetLPRows = []\<rparr>"

definition demo_solving :: SCIP where
  "demo_solving = demo_problem\<lparr>SCIPgetStage := SCIP_STAGE_SOLVING,
     SCIPgetNLPCols := 2, SCIPgetLPCols := [SCIP_COL 0, SCIP_COL 1],
     SCIPgetNLPRows := 1, SCIPgetLPRows := [demo_row]\<rparr>"


definition demo_lib :: scip_lib where
  "demo_lib = \<lparr>SCIPcreate = (SCIP_OKAY, demo_empty),
     SCIPincludeDefaultPlugins = (\<lambda>s. (SCIP_OKAY, s\<lparr>paramset := demo_params\<rparr>)),
     SCIPreadProb = (\<lambda>s filename.
        if filename = ''demo.lp''
        then (SCIP_OKAY, s\<lparr>SCIPgetStage := SCIP_STAGE_PROBLEM,
                SCIPgetNVars := 2, SCIPgetVars := [demo_x, demo_y]\<rparr>)
        else (SCIP_NOFILE, s)),
     SCIPcopy = (\<lambda>src dest. (SCIP_OKAY, src\<lparr>msghdlr_quiet := msghdlr_quiet dest\<rparr>)),
     SCIPfree = (\<lambda>s. SCIP_OKAY)\<rparr>"

definition demo_heap :: heap where
  "demo_heap = [Some demo_solving, Some demo_problem, Some demo_empty]"

text \<open>
  A default-constructed handle's instance (created, plugins included, no problem yet),
  and the relaxation after a cut \<open>x + y \<le> 1\<close> has been added as a second row.
\<close>

definition demo_default :: SCIP where
  "demo_default = demo_empty\<lparr>msghdlr_quiet := True, paramset := demo_params\<rparr>"

definition demo_heap_default :: heap where
  "demo_heap_default = [Some demo_solving, Some demo_default, Some demo_empty]"





text \<open>Handle objects: the object at address \<open>n < 3\<close> owns instance \<open>n\<close>.\<close>

definition demo_objs :: objects where
  "demo_objs n = \<lparr>scip = (if n < 3 then Some n else None)\<rparr>"

section \<open>Relaxation views and the stage\<close>

lemma size_t_of_count:
  assumes "0 \<le> sint (n :: c_int)"
  shows "uint (static_cast_size_t n) = sint n"
proof -
  have "sint n < 2 ^ 31"
    using sint_lt [of n] by simp
  then have "sint n < 2 ^ 64"
    by (rule less_trans) simp
  then have "take_bit 64 (sint n) = sint n"
    using assms by (simp add: take_bit_int_eq_self)
  moreover have "uint (word_of_int (sint n) :: size_t) = take_bit 64 (sint n)"
    by (simp only: uint_word_of_int_eq) simp
  ultimately show ?thesis
    unfolding static_cast_size_t_def scast_eq by (simp only:)
qed

text \<open>
  C1. For a handle that owns an instance \<open>s\<close>: when the stage of \<open>s\<close> is not
  \<open>SCIP_STAGE_SOLVING\<close>, \<open>lp_columns\<close> and \<open>lp_rows\<close> both throw the stage
  violation; when it is, both return a view whose length is the count the solver
  reports, cast to \<open>size_t\<close>, which is that very number since a count is not negative.
\<close>

theorem lp_views_only_while_solving:
  assumes "deref H (get_scip_ptr h) = Some s"
  shows "(SCIPgetStage s \<noteq> SCIP_STAGE_SOLVING \<longrightarrow>
            (\<exists>e. lp_columns H h = Throws e \<and> StageViolation e) \<and>
            (\<exists>e. lp_rows H h = Throws e \<and> StageViolation e)) \<and>
         (SCIPgetStage s = SCIP_STAGE_SOLVING \<longrightarrow>
            (\<exists>cols rows.
               lp_columns H h = Returns cols \<and> lp_rows H h = Returns rows \<and>
               view_size cols = static_cast_size_t (SCIPgetNLPCols s) \<and>
               view_size rows = static_cast_size_t (SCIPgetNLPRows s) \<and>
               (0 \<le> sint (SCIPgetNLPCols s) \<longrightarrow>
                  uint (view_size cols) = sint (SCIPgetNLPCols s)) \<and>
               (0 \<le> sint (SCIPgetNLPRows s) \<longrightarrow>
                  uint (view_size rows) = sint (SCIPgetNLPRows s))))"
  using assms
  by (simp add: lp_columns_def lp_rows_def StageViolation_def size_t_of_count)

theorem lp_views_only_while_solving_witness:
  "(\<exists>e. lp_columns demo_heap \<lparr>scip = Some 1\<rparr> = Throws e \<and> StageViolation e) \<and>
   (\<exists>e. lp_rows demo_heap \<lparr>scip = Some 1\<rparr> = Throws e \<and> StageViolation e) \<and>
   (\<exists>cols rows.
      lp_columns demo_heap \<lparr>scip = Some 0\<rparr> = Returns cols \<and>
      lp_rows demo_heap \<lparr>scip = Some 0\<rparr> = Returns rows \<and>
      uint (view_size cols) = 2 \<and> uint (view_size rows) = 1)"
proof -
  have p: "deref demo_heap (get_scip_ptr \<lparr>scip = Some 1\<rparr>) = Some demo_problem"
    by (simp add: deref_def get_scip_ptr_def demo_heap_def)
  have s: "deref demo_heap (get_scip_ptr \<lparr>scip = Some 0\<rparr>) = Some demo_solving"
    by (simp add: deref_def get_scip_ptr_def demo_heap_def)
  show ?thesis
    using lp_views_only_while_solving [OF p] lp_views_only_while_solving [OF s]
    by (simp add: demo_problem_def demo_solving_def) blast
qed

section \<open>Copying\<close>

lemma deref_fresh: "deref H (Some (length H)) = None"
  by (simp add: deref_def)

lemma deref_live: "deref H (Some a) = Some s \<Longrightarrow> a < length H"
  by (simp add: deref_def split: if_splits)

lemma deref_append_old: "a < length H \<Longrightarrow> deref (H @ xs) (Some a) = deref H (Some a)"
  by (simp add: deref_def nth_append)

lemma deref_append_new: "deref (H @ [x]) (Some (length H)) = x"
  by (simp add: deref_def)

lemma poke_last: "poke (H @ [x]) (Some (length H)) s = H @ [Some s]"
  by (simp add: poke_def)

lemma create_ok:
  "SCIPcreate L = (SCIP_OKAY, fresh) \<Longrightarrow>
   create L H = (Returns (Some (length H)), H @ [Some (fresh\<lparr>msghdlr_quiet := True\<rparr>)])"
  by (simp add: create_def call_def Let_def)

lemma create_Returns:
  assumes "create L H = (Returns p, H')"
  shows "p = Some (length H) \<and>
         H' = H @ [Some ((snd (SCIPcreate L))\<lparr>msghdlr_quiet := True\<rparr>)] \<and>
         fst (SCIPcreate L) = SCIP_OKAY"
  using assms
  by (auto simp: create_def call_def Let_def split: prod.splits if_splits)

lemma copy_null: "copy L H None = (Returns None, H)"
  by (simp add: copy_def)

lemma copy_init:
  "deref H (Some a) = Some src \<Longrightarrow> SCIPgetStage src = SCIP_STAGE_INIT \<Longrightarrow>
   copy L H (Some a) = create L H"
  by (simp add: copy_def)

lemma copy_clone:
  assumes "deref H (Some a) = Some src" and "SCIPgetStage src \<noteq> SCIP_STAGE_INIT"
    and "SCIPcreate L = (SCIP_OKAY, fresh)"
    and "SCIPcopy L src (fresh\<lparr>msghdlr_quiet := True\<rparr>) = (SCIP_OKAY, clone)"
  shows "copy L H (Some a) = (Returns (Some (length H)), H @ [Some clone])"
  using assms
  by (simp add: copy_def create_ok deref_append_new poke_last call_def)

lemma copy_Returns_fresh:
  assumes "copy L H (Some a) = (Returns p, H')" and "deref H (Some a) = Some src"
  shows "p = Some (length H) \<and> length H' = Suc (length H) \<and> take (length H) H' = H"
  using assms
  apply (simp add: copy_def split: if_splits prod.splits outcome.splits option.splits)
   apply (auto dest!: create_Returns simp: poke_last call_def split: if_splits)
  done


text \<open>
  C6. \<open>copy\<close> of a null pointer is null and leaves the heap alone. For a source that
  lives in the heap, with \<open>SCIPcreate\<close> succeeding: in the stage \<open>SCIP_STAGE_INIT\<close>
  the result is what \<open>create()\<close> gives, a new instance that owes nothing to the source;
  in every other stage the result is a new instance at a fresh address holding what
  \<open>SCIPcopy\<close> made of the source, and the source still stands as it was.
\<close>

theorem copy_null_fresh_or_clone:
  assumes "deref H (Some a) = Some src" and "SCIPcreate L = (SCIP_OKAY, fresh)"
  shows "copy L H None = (Returns None, H) \<and>
    (SCIPgetStage src = SCIP_STAGE_INIT \<longrightarrow>
       copy L H (Some a) = create L H \<and>
       copy L H (Some a) =
         (Returns (Some (length H)), H @ [Some (fresh\<lparr>msghdlr_quiet := True\<rparr>)])) \<and>
    (SCIPgetStage src \<noteq> SCIP_STAGE_INIT \<longrightarrow>
       (\<forall>clone. SCIPcopy L src (fresh\<lparr>msghdlr_quiet := True\<rparr>) = (SCIP_OKAY, clone) \<longrightarrow>
          copy L H (Some a) = (Returns (Some (length H)), H @ [Some clone]) \<and>
          deref (H @ [Some clone]) (Some (length H)) = Some clone \<and>
          deref (H @ [Some clone]) (Some a) = Some src \<and>
          a \<noteq> length H))"
proof (intro conjI impI allI)
  show "copy L H None = (Returns None, H)"
    by (rule copy_null)
next
  assume init: "SCIPgetStage src = SCIP_STAGE_INIT"
  show "copy L H (Some a) = create L H"
    using assms(1) init by (rule copy_init)
  then show "copy L H (Some a) =
      (Returns (Some (length H)), H @ [Some (fresh\<lparr>msghdlr_quiet := True\<rparr>)])"
    by (simp add: create_ok [OF assms(2)])
next
  fix clone
  assume later: "SCIPgetStage src \<noteq> SCIP_STAGE_INIT"
    and cloned: "SCIPcopy L src (fresh\<lparr>msghdlr_quiet := True\<rparr>) = (SCIP_OKAY, clone)"
  have less: "a < length H"
    using assms(1) by (rule deref_live)
  show "copy L H (Some a) = (Returns (Some (length H)), H @ [Some clone])"
    using assms(1) later assms(2) cloned by (rule copy_clone)
  show "deref (H @ [Some clone]) (Some (length H)) = Some clone"
    by (rule deref_append_new)
  show "deref (H @ [Some clone]) (Some a) = Some src"
    using less assms(1) by (simp add: deref_append_old)
  show "a \<noteq> length H"
    using less by simp
qed

theorem copy_null_fresh_or_clone_witness:
  "copy demo_lib demo_heap None = (Returns None, demo_heap) \<and>
   copy demo_lib demo_heap (Some 2) =
     (Returns (Some 3), demo_heap @ [Some (demo_empty\<lparr>msghdlr_quiet := True\<rparr>)]) \<and>
   copy demo_lib demo_heap (Some 1) = (Returns (Some 3), demo_heap @ [Some demo_problem]) \<and>
   deref (demo_heap @ [Some demo_problem]) (Some 3) = Some demo_problem \<and>
   deref (demo_heap @ [Some demo_problem]) (Some 1) = Some demo_problem"
proof -
  have e: "deref demo_heap (Some 2) = Some demo_empty"
    by (simp add: deref_def demo_heap_def)
  have p: "deref demo_heap (Some 1) = Some demo_problem"
    by (simp add: deref_def demo_heap_def)
  have c: "SCIPcreate demo_lib = (SCIP_OKAY, demo_empty)"
    by (simp add: demo_lib_def)
  have k: "SCIPcopy demo_lib demo_problem (demo_empty\<lparr>msghdlr_quiet := True\<rparr>) =
      (SCIP_OKAY, demo_problem)"
    by (simp add: demo_lib_def demo_problem_def)
  have l: "length demo_heap = 3"
    by (simp add: demo_heap_def)
  have i: "SCIPgetStage demo_empty = SCIP_STAGE_INIT"
    by (simp add: demo_empty_def)
  have n: "SCIPgetStage demo_problem \<noteq> SCIP_STAGE_INIT"
    by (simp add: demo_problem_def)
  from copy_null_fresh_or_clone [OF e c, unfolded l] i
  have 1: "copy demo_lib demo_heap None = (Returns None, demo_heap)"
    and 2: "copy demo_lib demo_heap (Some 2) =
      (Returns (Some 3), demo_heap @ [Some (demo_empty\<lparr>msghdlr_quiet := True\<rparr>)])"
    by blast+
  from copy_null_fresh_or_clone [OF p c, unfolded l] n k
  have 3: "copy demo_lib demo_heap (Some 1) = (Returns (Some 3), demo_heap @ [Some demo_problem])"
    and 4: "deref (demo_heap @ [Some demo_problem]) (Some 3) = Some demo_problem"
    and 5: "deref (demo_heap @ [Some demo_problem]) (Some 1) = Some demo_problem"
    by blast+
  from 1 2 3 4 5 show ?thesis
    by (simp only: simp_thms)
qed

section \<open>Equality and assignment of handles\<close>

lemma unique_ptr_delete_null: "unique_ptr_delete L H None = Some H"
  by (simp add: unique_ptr_delete_def)

lemma unique_ptr_delete_ok:
  assumes "deref H (Some b) = Some old" and "SCIPfree L old = SCIP_OKAY"
  shows "unique_ptr_delete L H (Some b) = Some (H[b := None])"
  using assms by (simp add: unique_ptr_delete_def Deleter_def call_def)

lemma unique_ptr_delete_fails:
  assumes "deref H (Some b) = Some old" and "SCIPfree L old \<noteq> SCIP_OKAY"
  shows "unique_ptr_delete L H (Some b) = None"
  using assms by (simp add: unique_ptr_delete_def Deleter_def call_def)

lemma deref_freed: "deref (H[b := None]) (Some b) = None"
  by (simp add: deref_def)

lemma deref_freed_other: "a \<noteq> b \<Longrightarrow> deref (H[b := None]) (Some a) = deref H (Some a)"
  by (simp add: deref_def)

lemma Model_default_Returns:
  assumes "Model_default L H = (Returns m, H')"
  shows "m = \<lparr>scip = Some (length H)\<rparr> \<and>
         H' = H @ [Some (snd (SCIPincludeDefaultPlugins L
                 ((snd (SCIPcreate L))\<lparr>msghdlr_quiet := True\<rparr>)))]"
  using assms
  by (auto simp: Model_default_def call_def deref_append_new poke_last
      dest!: create_Returns split: prod.splits outcome.splits option.splits if_splits)

lemma from_file_Returns:
  assumes "from_file L H f = (Returns m, H')"
  shows "m = \<lparr>scip = Some (length H)\<rparr> \<and>
         H' = H @ [Some (snd (SCIPreadProb L (snd (SCIPincludeDefaultPlugins L
                 ((snd (SCIPcreate L))\<lparr>msghdlr_quiet := True\<rparr>))) f))]"
  using assms
  by (auto simp: from_file_def read_prob_def get_scip_ptr_def call_def deref_append_new poke_last
      dest!: Model_default_Returns split: prod.splits outcome.splits option.splits if_splits)

text \<open>
  C5. Two handles are equal exactly when they hold the same instance pointer. So the
  copy of a handle that owns a live instance is never equal to it, and two handles built
  one after the other from the same file are not equal although the instances they own
  are the same value.
\<close>

theorem equality_is_identity:
  "(Model_eq h1 h2 \<longleftrightarrow> get_scip_ptr h1 = get_scip_ptr h2) \<and>
   (Model_neq h1 h2 \<longleftrightarrow> get_scip_ptr h1 \<noteq> get_scip_ptr h2) \<and>
   (deref H (get_scip_ptr h) \<noteq> None \<longrightarrow> Model_copy L H h = (Returns h', H') \<longrightarrow>
      \<not> Model_eq h' h \<and> \<not> Model_eq h h') \<and>
   (from_file L H f = (Returns m1, H1) \<longrightarrow> from_file L H1 f = (Returns m2, H2) \<longrightarrow>
      \<not> Model_eq m1 m2 \<and>
      deref H2 (get_scip_ptr m1) \<noteq> None \<and>
      deref H2 (get_scip_ptr m1) = deref H2 (get_scip_ptr m2))"
proof (intro conjI impI)
  show "Model_eq h1 h2 \<longleftrightarrow> get_scip_ptr h1 = get_scip_ptr h2"
    by (simp add: Model_eq_def get_scip_ptr_def)
  show "Model_neq h1 h2 \<longleftrightarrow> get_scip_ptr h1 \<noteq> get_scip_ptr h2"
    by (simp add: Model_neq_def Model_eq_def get_scip_ptr_def)
next
  assume live: "deref H (get_scip_ptr h) \<noteq> None"
    and copied: "Model_copy L H h = (Returns h', H')"
  from live obtain a s where a: "get_scip_ptr h = Some a" and s: "deref H (Some a) = Some s"
    by (cases "get_scip_ptr h") (auto simp: deref_def)
  from copied a obtain p where "copy L H (Some a) = (Returns p, H')" and h': "h' = \<lparr>scip = p\<rparr>"
    by (auto simp: Model_copy_def split: prod.splits outcome.splits)
  with s have "p = Some (length H)"
    by (auto dest: copy_Returns_fresh)
  moreover have "a < length H"
    using s by (rule deref_live)
  ultimately have "scip h' \<noteq> scip h"
    using a h' by (simp add: get_scip_ptr_def)
  then show "\<not> Model_eq h' h" and "\<not> Model_eq h h'"
    by (auto simp: Model_eq_def)
next
  assume first: "from_file L H f = (Returns m1, H1)"
    and second: "from_file L H1 f = (Returns m2, H2)"
  note a = from_file_Returns [OF first] and b = from_file_Returns [OF second]
  show "\<not> Model_eq m1 m2"
    using a b by (simp add: Model_eq_def)
  show "deref H2 (get_scip_ptr m1) \<noteq> None"
    using a b by (simp add: get_scip_ptr_def deref_def nth_append)
  show "deref H2 (get_scip_ptr m1) = deref H2 (get_scip_ptr m2)"
    using a b by (simp add: get_scip_ptr_def deref_def nth_append)
qed

lemma demo_copy_problem:
  "Model_copy demo_lib demo_heap \<lparr>scip = Some 1\<rparr> =
     (Returns \<lparr>scip = Some 3\<rparr>, demo_heap @ [Some demo_problem])"
  by (simp add: Model_copy_def get_scip_ptr_def copy_def create_def call_def deref_def poke_def
      demo_heap_def demo_lib_def demo_problem_def demo_empty_def)

lemma demo_from_file:
  "from_file demo_lib H ''demo.lp'' =
     (Returns \<lparr>scip = Some (length H)\<rparr>, H @ [Some demo_problem])"
proof -
  have "create demo_lib H =
      (Returns (Some (length H)), H @ [Some (demo_empty\<lparr>msghdlr_quiet := True\<rparr>)])"
    by (rule create_ok) (simp add: demo_lib_def)
  then have "Model_default demo_lib H =
      (Returns \<lparr>scip = Some (length H)\<rparr>,
       H @ [Some (demo_empty\<lparr>msghdlr_quiet := True, paramset := demo_params\<rparr>)])"
    by (simp add: Model_default_def deref_append_new poke_last call_def demo_lib_def)
  then show ?thesis
    by (simp add: from_file_def read_prob_def get_scip_ptr_def deref_append_new poke_last
        call_def demo_lib_def demo_problem_def demo_empty_def)
qed

theorem equality_is_identity_witness:
  "Model_eq \<lparr>scip = Some 1\<rparr> \<lparr>scip = Some 1\<rparr> \<and>
   Model_neq \<lparr>scip = Some 0\<rparr> \<lparr>scip = Some 1\<rparr> \<and>
   Model_copy demo_lib demo_heap \<lparr>scip = Some 1\<rparr> =
     (Returns \<lparr>scip = Some 3\<rparr>, demo_heap @ [Some demo_problem]) \<and>
   \<not> Model_eq \<lparr>scip = Some 3\<rparr> \<lparr>scip = Some 1\<rparr> \<and>
   from_file demo_lib demo_heap ''demo.lp'' =
     (Returns \<lparr>scip = Some 3\<rparr>, demo_heap @ [Some demo_problem]) \<and>
   from_file demo_lib (demo_heap @ [Some demo_problem]) ''demo.lp'' =
     (Returns \<lparr>scip = Some 4\<rparr>, demo_heap @ [Some demo_problem] @ [Some demo_problem]) \<and>
   \<not> Model_eq \<lparr>scip = Some 3\<rparr> \<lparr>scip = Some 4\<rparr>"
proof -
  have live: "deref demo_heap (get_scip_ptr \<lparr>scip = Some 1\<rparr>) \<noteq> None"
    by (simp add: deref_def get_scip_ptr_def demo_heap_def)
  have first: "from_file demo_lib demo_heap ''demo.lp'' =
      (Returns \<lparr>scip = Some 3\<rparr>, demo_heap @ [Some demo_problem])"
    using demo_from_file [of demo_heap] by (simp add: demo_heap_def)
  have second: "from_file demo_lib (demo_heap @ [Some demo_problem]) ''demo.lp'' =
      (Returns \<lparr>scip = Some 4\<rparr>, (demo_heap @ [Some demo_problem]) @ [Some demo_problem])"
    using demo_from_file [of "demo_heap @ [Some demo_problem]"] by (simp add: demo_heap_def)
  have ptr: "get_scip_ptr \<lparr>scip = Some 1\<rparr> = get_scip_ptr \<lparr>scip = Some 1\<rparr>"
    "get_scip_ptr \<lparr>scip = Some 0\<rparr> \<noteq> get_scip_ptr \<lparr>scip = Some 1\<rparr>"
    by (simp_all add: get_scip_ptr_def)
  note t = equality_is_identity [where ?h1.0 = "\<lparr>scip = Some 1\<rparr>" and ?h2.0 = "\<lparr>scip = Some 1\<rparr>"
      and H = demo_heap and h = "\<lparr>scip = Some 1\<rparr>" and L = demo_lib
      and h' = "\<lparr>scip = Some 3\<rparr>" and H' = "demo_heap @ [Some demo_problem]"
      and f = "''demo.lp''" and ?m1.0 = "\<lparr>scip = Some 3\<rparr>"
      and ?H1.0 = "demo_heap @ [Some demo_problem]" and ?m2.0 = "\<lparr>scip = Some 4\<rparr>"
      and ?H2.0 = "(demo_heap @ [Some demo_problem]) @ [Some demo_problem]"]
  note u = equality_is_identity [where ?h1.0 = "\<lparr>scip = Some 0\<rparr>" and ?h2.0 = "\<lparr>scip = Some 1\<rparr>"]
  from t ptr(1) have 1: "Model_eq \<lparr>scip = Some 1\<rparr> \<lparr>scip = Some 1\<rparr>"
    by blast
  from u ptr(2) have 2: "Model_neq \<lparr>scip = Some 0\<rparr> \<lparr>scip = Some 1\<rparr>"
    by blast
  from t live demo_copy_problem have 3: "\<not> Model_eq \<lparr>scip = Some 3\<rparr> \<lparr>scip = Some 1\<rparr>"
    by blast
  from t first second have 4: "\<not> Model_eq \<lparr>scip = Some 3\<rparr> \<lparr>scip = Some 4\<rparr>"
    by blast
  from 1 2 3 4 demo_copy_problem first second show ?thesis
    by simp
qed


lemma assign_installs:
  assumes own: "get_scip_ptr (objs this) = Some b" "deref H (Some b) = Some old"
    and free: "SCIPfree L old = SCIP_OKAY"
    and distinct: "other \<noteq> this"
    and other: "deref H (get_scip_ptr (objs other)) = Some src"
    and copied: "copy L H (get_scip_ptr (objs other)) =
      (Returns (Some (length H)), H @ [Some installed])"
  shows "\<exists>objs' H'.
    Model_assign L objs H this other = (Returns this, objs', H') \<and>
    get_scip_ptr (objs' this) = Some (length H) \<and>
    deref H' (get_scip_ptr (objs' this)) = Some installed \<and>
    deref H' (get_scip_ptr (objs this)) = None \<and>
    \<not> Model_eq (objs' this) (objs this) \<and>
    \<not> Model_eq (objs' this) (objs' other) \<and>
    objs' other = objs other \<and>
    (get_scip_ptr (objs other) \<noteq> get_scip_ptr (objs this) \<longrightarrow>
       deref H' (get_scip_ptr (objs other)) = Some src)"
proof -
  from other obtain a where a: "get_scip_ptr (objs other) = Some a"
    by (cases "get_scip_ptr (objs other)") (auto simp: deref_def)
  have a_less: "a < length H"
    using other a by (auto dest: deref_live)
  have b_less: "b < length H"
    using own(2) by (rule deref_live)
  have "deref (H @ [Some installed]) (Some b) = Some old"
    using b_less own(2) by (simp add: deref_append_old)
  then have deleted: "unique_ptr_delete L (H @ [Some installed]) (Some b) =
      Some ((H @ [Some installed])[b := None])"
    using free by (rule unique_ptr_delete_ok)
  let ?objs = "objs(this := \<lparr>scip = Some (length H)\<rparr>)"
  let ?H = "(H @ [Some installed])[b := None]"
  have result: "Model_assign L objs H this other = (Returns this, ?objs, ?H)"
    using distinct copied own(1) deleted by (simp add: Model_assign_def get_scip_ptr_def)
  have new: "deref ?H (Some (length H)) = Some installed"
    using b_less by (simp add: deref_freed_other deref_append_new)
  have gone: "deref ?H (Some b) = None"
    by (rule deref_freed)
  have kept: "a \<noteq> b \<Longrightarrow> deref ?H (Some a) = Some src"
    using a_less other a by (simp add: deref_freed_other deref_append_old)
  show ?thesis
    using result new gone kept distinct a own(1) a_less b_less
    by (intro exI [of _ ?objs] exI [of _ ?H]) (auto simp: get_scip_ptr_def Model_eq_def)
qed

text \<open>
  C10. Assigning a handle to itself changes neither the handle objects nor the heap: the
  handle owns the same instance as before. Assigning from another object whose handle
  owns a live instance, with \<open>SCIPfree\<close> succeeding on the instance owned before,
  deletes that instance and installs a new one at a fresh address, and leaves the source
  handle and its instance as they were. The new instance is the clone \<open>SCIPcopy\<close>
  made when the source is past \<open>SCIP_STAGE_INIT\<close>; for a source in
  \<open>SCIP_STAGE_INIT\<close> it is what \<open>create()\<close> gives and owes nothing to the source.
  When \<open>SCIPfree\<close> fails, the assignment does not return.
\<close>

theorem assignment_self_and_other:
  assumes "deref H (get_scip_ptr (objs this)) = Some old"
  shows "Model_assign L objs H this this = (Returns this, objs, H) \<and>
    (\<forall>objs' H'. Model_assign L objs H this this = (Returns this, objs', H') \<longrightarrow>
       Model_eq (objs' this) (objs this) \<and> deref H' (get_scip_ptr (objs' this)) = Some old) \<and>
    (other \<noteq> this \<longrightarrow> SCIPfree L old = SCIP_OKAY \<longrightarrow>
       (\<forall>src fresh clone.
          deref H (get_scip_ptr (objs other)) = Some src \<longrightarrow>
          SCIPgetStage src \<noteq> SCIP_STAGE_INIT \<longrightarrow>
          SCIPcreate L = (SCIP_OKAY, fresh) \<longrightarrow>
          SCIPcopy L src (fresh\<lparr>msghdlr_quiet := True\<rparr>) = (SCIP_OKAY, clone) \<longrightarrow>
          (\<exists>objs' H'.
             Model_assign L objs H this other = (Returns this, objs', H') \<and>
             get_scip_ptr (objs' this) = Some (length H) \<and>
             deref H' (get_scip_ptr (objs' this)) = Some clone \<and>
             deref H' (get_scip_ptr (objs this)) = None \<and>
             \<not> Model_eq (objs' this) (objs this) \<and>
             \<not> Model_eq (objs' this) (objs' other) \<and>
             objs' other = objs other \<and>
             (get_scip_ptr (objs other) \<noteq> get_scip_ptr (objs this) \<longrightarrow>
                deref H' (get_scip_ptr (objs other)) = Some src)))) \<and>
    (other \<noteq> this \<longrightarrow> SCIPfree L old = SCIP_OKAY \<longrightarrow>
       (\<forall>src fresh.
          deref H (get_scip_ptr (objs other)) = Some src \<longrightarrow>
          SCIPgetStage src = SCIP_STAGE_INIT \<longrightarrow>
          SCIPcreate L = (SCIP_OKAY, fresh) \<longrightarrow>
          (\<exists>objs' H'.
             Model_assign L objs H this other = (Returns this, objs', H') \<and>
             get_scip_ptr (objs' this) = Some (length H) \<and>
             deref H' (get_scip_ptr (objs' this)) = Some (fresh\<lparr>msghdlr_quiet := True\<rparr>) \<and>
             deref H' (get_scip_ptr (objs this)) = None \<and>
             \<not> Model_eq (objs' this) (objs this) \<and>
             \<not> Model_eq (objs' this) (objs' other) \<and>
             objs' other = objs other \<and>
             (get_scip_ptr (objs other) \<noteq> get_scip_ptr (objs this) \<longrightarrow>
                deref H' (get_scip_ptr (objs other)) = Some src)))) \<and>
    (other \<noteq> this \<longrightarrow> SCIPfree L old \<noteq> SCIP_OKAY \<longrightarrow>
       (\<forall>src p H1.
          deref H (get_scip_ptr (objs other)) = Some src \<longrightarrow>
          copy L H (get_scip_ptr (objs other)) = (Returns p, H1) \<longrightarrow>
          fst (Model_assign L objs H this other) = Undefined))"
proof -
  from assms obtain b where b: "get_scip_ptr (objs this) = Some b"
    by (cases "get_scip_ptr (objs this)") (auto simp: deref_def)
  have old: "deref H (Some b) = Some old"
    using assms b by simp
  show ?thesis
  proof (intro conjI impI allI)
    show self: "Model_assign L objs H this this = (Returns this, objs, H)"
      by (simp add: Model_assign_def)
    fix objs' H'
    assume "Model_assign L objs H this this = (Returns this, objs', H')"
    with self have "objs' = objs" and "H' = H"
      by simp_all
    then show "Model_eq (objs' this) (objs this)"
      and "deref H' (get_scip_ptr (objs' this)) = Some old"
      using assms by (simp_all add: Model_eq_def)
  next
    fix src fresh clone
    assume distinct: "other \<noteq> this" and free: "SCIPfree L old = SCIP_OKAY"
      and src: "deref H (get_scip_ptr (objs other)) = Some src"
      and stage: "SCIPgetStage src \<noteq> SCIP_STAGE_INIT"
      and created: "SCIPcreate L = (SCIP_OKAY, fresh)"
      and cloned: "SCIPcopy L src (fresh\<lparr>msghdlr_quiet := True\<rparr>) = (SCIP_OKAY, clone)"
    from src obtain a where a: "get_scip_ptr (objs other) = Some a"
      by (cases "get_scip_ptr (objs other)") (auto simp: deref_def)
    have "copy L H (Some a) = (Returns (Some (length H)), H @ [Some clone])"
      using src stage created cloned unfolding a by (rule copy_clone)
    then have "copy L H (get_scip_ptr (objs other)) =
        (Returns (Some (length H)), H @ [Some clone])"
      by (simp add: a)
    with b old free distinct src show "\<exists>objs' H'.
        Model_assign L objs H this other = (Returns this, objs', H') \<and>
        get_scip_ptr (objs' this) = Some (length H) \<and>
        deref H' (get_scip_ptr (objs' this)) = Some clone \<and>
        deref H' (get_scip_ptr (objs this)) = None \<and>
        \<not> Model_eq (objs' this) (objs this) \<and>
        \<not> Model_eq (objs' this) (objs' other) \<and>
        objs' other = objs other \<and>
        (get_scip_ptr (objs other) \<noteq> get_scip_ptr (objs this) \<longrightarrow>
           deref H' (get_scip_ptr (objs other)) = Some src)"
      by (rule assign_installs)
  next
    fix src fresh
    assume distinct: "other \<noteq> this" and free: "SCIPfree L old = SCIP_OKAY"
      and src: "deref H (get_scip_ptr (objs other)) = Some src"
      and stage: "SCIPgetStage src = SCIP_STAGE_INIT"
      and created: "SCIPcreate L = (SCIP_OKAY, fresh)"
    from src obtain a where a: "get_scip_ptr (objs other) = Some a"
      by (cases "get_scip_ptr (objs other)") (auto simp: deref_def)
    have "copy L H (Some a) = create L H"
      using src stage unfolding a by (rule copy_init)
    then have "copy L H (get_scip_ptr (objs other)) =
        (Returns (Some (length H)), H @ [Some (fresh\<lparr>msghdlr_quiet := True\<rparr>)])"
      by (simp add: a create_ok [OF created])
    with b old free distinct src show "\<exists>objs' H'.
        Model_assign L objs H this other = (Returns this, objs', H') \<and>
        get_scip_ptr (objs' this) = Some (length H) \<and>
        deref H' (get_scip_ptr (objs' this)) = Some (fresh\<lparr>msghdlr_quiet := True\<rparr>) \<and>
        deref H' (get_scip_ptr (objs this)) = None \<and>
        \<not> Model_eq (objs' this) (objs this) \<and>
        \<not> Model_eq (objs' this) (objs' other) \<and>
        objs' other = objs other \<and>
        (get_scip_ptr (objs other) \<noteq> get_scip_ptr (objs this) \<longrightarrow>
           deref H' (get_scip_ptr (objs other)) = Some src)"
      by (rule assign_installs)
  next
    fix src p H1
    assume distinct: "other \<noteq> this" and free: "SCIPfree L old \<noteq> SCIP_OKAY"
      and src: "deref H (get_scip_ptr (objs other)) = Some src"
      and copied: "copy L H (get_scip_ptr (objs other)) = (Returns p, H1)"
    from src obtain a where a: "get_scip_ptr (objs other) = Some a"
      by (cases "get_scip_ptr (objs other)") (auto simp: deref_def)
    from copied src have H1: "length H1 = Suc (length H)" "take (length H) H1 = H"
      unfolding a by (auto dest: copy_Returns_fresh)
    have b_less: "b < length H"
      using old by (rule deref_live)
    then have "H1 ! b = take (length H) H1 ! b"
      by simp
    then have "deref H1 (Some b) = Some old"
      using old b_less H1 by (simp add: deref_def)
    then have "unique_ptr_delete L H1 (Some b) = None"
      using free by (rule unique_ptr_delete_fails)
    then show "fst (Model_assign L objs H this other) = Undefined"
      using distinct copied b by (simp add: Model_assign_def get_scip_ptr_def)
  qed
qed


theorem assignment_self_and_other_witness:
  "Model_assign demo_lib demo_objs demo_heap 1 1 = (Returns 1, demo_objs, demo_heap) \<and>
   Model_eq (demo_objs 1) (demo_objs 1) \<and>
   (\<exists>objs' H'.
      Model_assign demo_lib demo_objs demo_heap 0 1 = (Returns 0, objs', H') \<and>
      get_scip_ptr (objs' 0) = Some 3 \<and>
      deref H' (get_scip_ptr (objs' 0)) = Some demo_problem \<and>
      deref H' (get_scip_ptr (demo_objs 0)) = None \<and>
      objs' 1 = demo_objs 1 \<and>
      deref H' (get_scip_ptr (demo_objs 1)) = Some demo_problem) \<and>
   (\<exists>objs' H'.
      Model_assign demo_lib demo_objs demo_heap 0 2 = (Returns 0, objs', H') \<and>
      get_scip_ptr (objs' 0) = Some 3 \<and>
      deref H' (get_scip_ptr (objs' 0)) = Some (demo_empty\<lparr>msghdlr_quiet := True\<rparr>) \<and>
      deref H' (get_scip_ptr (demo_objs 0)) = None) \<and>
   fst (Model_assign (demo_lib\<lparr>SCIPfree := (\<lambda>s. SCIP_ERROR)\<rparr>) demo_objs demo_heap 0 1) =
     Undefined"
proof -
  let ?L = "demo_lib\<lparr>SCIPfree := (\<lambda>s. SCIP_ERROR)\<rparr>"
  have own1: "deref demo_heap (get_scip_ptr (demo_objs 1)) = Some demo_problem"
    by (simp add: deref_def get_scip_ptr_def demo_objs_def demo_heap_def)
  have own0: "deref demo_heap (get_scip_ptr (demo_objs 0)) = Some demo_solving"
    by (simp add: deref_def get_scip_ptr_def demo_objs_def demo_heap_def)
  have own2: "deref demo_heap (get_scip_ptr (demo_objs 2)) = Some demo_empty"
    by (simp add: deref_def get_scip_ptr_def demo_objs_def demo_heap_def)
  have free: "SCIPfree demo_lib demo_solving = SCIP_OKAY"
    and created: "SCIPcreate demo_lib = (SCIP_OKAY, demo_empty)"
    and cloned: "SCIPcopy demo_lib demo_problem (demo_empty\<lparr>msghdlr_quiet := True\<rparr>) =
      (SCIP_OKAY, demo_problem)"
    by (simp_all add: demo_lib_def demo_problem_def)
  have stage1: "SCIPgetStage demo_problem \<noteq> SCIP_STAGE_INIT"
    and stage2: "SCIPgetStage demo_empty = SCIP_STAGE_INIT"
    by (simp_all add: demo_problem_def demo_empty_def)
  have ptrs: "get_scip_ptr (demo_objs 1) \<noteq> get_scip_ptr (demo_objs 0)"
    by (simp add: get_scip_ptr_def demo_objs_def)
  have l: "length demo_heap = 3"
    by (simp add: demo_heap_def)
  note s = assignment_self_and_other [where objs = demo_objs and this = 1 and H = demo_heap
      and L = demo_lib and other = 1, OF own1]
  note d = assignment_self_and_other [where objs = demo_objs and this = 0 and H = demo_heap
      and L = demo_lib and other = 1, OF own0, unfolded l]
  note e = assignment_self_and_other [where objs = demo_objs and this = 0 and H = demo_heap
      and L = demo_lib and other = 2, OF own0, unfolded l]
  from s have 1: "Model_assign demo_lib demo_objs demo_heap 1 1 = (Returns 1, demo_objs, demo_heap)"
    by (rule conjunct1)
  with s have 2: "Model_eq (demo_objs 1) (demo_objs 1)"
    by blast
  have "(1::nat) \<noteq> 0" and "(2::nat) \<noteq> 0"
    by simp_all
  note d3 = d [THEN conjunct2, THEN conjunct2, THEN conjunct1, rule_format,
      OF \<open>(1::nat) \<noteq> 0\<close> free own1 stage1 created cloned]
  note e4 = e [THEN conjunct2, THEN conjunct2, THEN conjunct2, THEN conjunct1, rule_format,
      OF \<open>(2::nat) \<noteq> 0\<close> free own2 stage2 created]
  from d3 ptrs have 3: "\<exists>objs' H'.
      Model_assign demo_lib demo_objs demo_heap 0 1 = (Returns 0, objs', H') \<and>
      get_scip_ptr (objs' 0) = Some 3 \<and>
      deref H' (get_scip_ptr (objs' 0)) = Some demo_problem \<and>
      deref H' (get_scip_ptr (demo_objs 0)) = None \<and>
      objs' 1 = demo_objs 1 \<and>
      deref H' (get_scip_ptr (demo_objs 1)) = Some demo_problem"
    by blast
  from e4 have 4: "\<exists>objs' H'.
      Model_assign demo_lib demo_objs demo_heap 0 2 = (Returns 0, objs', H') \<and>
      get_scip_ptr (objs' 0) = Some 3 \<and>
      deref H' (get_scip_ptr (objs' 0)) = Some (demo_empty\<lparr>msghdlr_quiet := True\<rparr>) \<and>
      deref H' (get_scip_ptr (demo_objs 0)) = None"
    by blast
  have fails: "SCIPfree ?L demo_solving \<noteq> SCIP_OKAY"
    and created': "SCIPcreate ?L = (SCIP_OKAY, demo_empty)"
    and cloned': "SCIPcopy ?L demo_problem (demo_empty\<lparr>msghdlr_quiet := True\<rparr>) =
      (SCIP_OKAY, demo_problem)"
    by (simp_all add: demo_lib_def demo_problem_def)
  have copied: "copy ?L demo_heap (get_scip_ptr (demo_objs 1)) =
      (Returns (Some (length demo_heap)), demo_heap @ [Some demo_problem])"
    using own1 stage1 created' cloned' by (simp add: get_scip_ptr_def demo_objs_def copy_clone)
  note f = assignment_self_and_other [where objs = demo_objs and this = 0 and H = demo_heap
      and L = ?L and other = 1, OF own0]
  note 5 = f [THEN conjunct2, THEN conjunct2, THEN conjunct2, THEN conjunct2, rule_format,
      OF \<open>(1::nat) \<noteq> 0\<close> fails own1 copied]
  from 1 2 3 4 5 show ?thesis
    by (simp only: simp_thms)
qed

text \<open>
  Assignment from a default-constructed handle, whose instance has the plugins and the
  parameters and is still in \<open>SCIP_STAGE_INIT\<close>: the target receives a bare instance,
  without the parameters of the source.
\<close>

theorem assignment_from_fresh_source_counterexample:
  "Model_default demo_lib [Some demo_solving] =
     (Returns \<lparr>scip = Some 1\<rparr>, [Some demo_solving, Some demo_default]) \<and>
   SCIPgetStage demo_default = SCIP_STAGE_INIT \<and>
   Model_assign demo_lib demo_objs demo_heap_default 0 1 =
     (Returns 0, demo_objs(0 := \<lparr>scip = Some 3\<rparr>),
      [None, Some demo_default, Some demo_empty, Some (demo_empty\<lparr>msghdlr_quiet := True\<rparr>)]) \<and>
   paramset demo_default ''limits/time'' =
     Some \<lparr>param_data = RealV 3600, param_accepts = any_value\<rparr> \<and>
   paramset (demo_empty\<lparr>msghdlr_quiet := True\<rparr>) ''limits/time'' = None"
proof -
  have src: "deref demo_heap_default (Some 1) = Some demo_default"
    and old: "deref demo_heap_default (Some 0) = Some demo_solving"
    by (simp_all add: deref_def demo_heap_default_def)
  have "SCIPgetStage demo_default = SCIP_STAGE_INIT"
    by (simp add: demo_default_def demo_empty_def)
  with src have "copy demo_lib demo_heap_default (Some 1) = create demo_lib demo_heap_default"
    by (rule copy_init)
  also have "\<dots> = (Returns (Some 3),
      demo_heap_default @ [Some (demo_empty\<lparr>msghdlr_quiet := True\<rparr>)])"
    using create_ok [of demo_lib demo_empty demo_heap_default]
    by (simp add: demo_lib_def demo_heap_default_def)
  finally have copied: "copy demo_lib demo_heap_default (Some 1) =
      (Returns (Some 3), demo_heap_default @ [Some (demo_empty\<lparr>msghdlr_quiet := True\<rparr>)])" .
  have "deref (demo_heap_default @ [Some (demo_empty\<lparr>msghdlr_quiet := True\<rparr>)]) (Some 0) =
      Some demo_solving"
    by (simp add: deref_def demo_heap_default_def)
  moreover have "SCIPfree demo_lib demo_solving = SCIP_OKAY"
    by (simp add: demo_lib_def)
  ultimately have "unique_ptr_delete demo_lib
      (demo_heap_default @ [Some (demo_empty\<lparr>msghdlr_quiet := True\<rparr>)]) (Some 0) =
      Some ((demo_heap_default @ [Some (demo_empty\<lparr>msghdlr_quiet := True\<rparr>)])[0 := None])"
    by (rule unique_ptr_delete_ok)
  with copied have "Model_assign demo_lib demo_objs demo_heap_default 0 1 =
      (Returns 0, demo_objs(0 := \<lparr>scip = Some 3\<rparr>),
       (demo_heap_default @ [Some (demo_empty\<lparr>msghdlr_quiet := True\<rparr>)])[0 := None])"
    by (simp add: Model_assign_def get_scip_ptr_def demo_objs_def)
  moreover have "create demo_lib [Some demo_solving] =
      (Returns (Some 1), [Some demo_solving] @ [Some (demo_empty\<lparr>msghdlr_quiet := True\<rparr>)])"
    using create_ok [of demo_lib demo_empty "[Some demo_solving]"] by (simp add: demo_lib_def)
  then have "Model_default demo_lib [Some demo_solving] =
      (Returns \<lparr>scip = Some 1\<rparr>, [Some demo_solving, Some demo_default])"
    by (simp add: Model_default_def deref_def poke_def call_def demo_lib_def demo_default_def)
  ultimately show ?thesis
    by (simp add: demo_heap_default_def demo_default_def demo_empty_def demo_params_def)
qed

section \<open>Reading and writing parameters\<close>

lemma poke_same: "deref H p = Some s \<Longrightarrow> poke H p s = H"
  by (cases p) (auto simp: deref_def poke_def list_update_same_conv split: if_splits)

lemma deref_poke: "deref H p = Some s \<Longrightarrow> deref (poke H p s') p = Some s'"
  by (cases p) (auto simp: deref_def poke_def split: if_splits)

lemma set_scip_param_write:
  "set_scip_param H p name arg = call_set H p (\<lambda>s. param_write s name (passed_value arg))"
  by (cases arg)
    (simp_all add: set_scip_param_def passed_value_def set_scip_param_Bool_def
      set_scip_param_Int_def set_scip_param_LongInt_def set_scip_param_Real_def
      set_scip_param_Char_def set_scip_param_String_def set_scip_param_std_string_def
      SCIPsetBoolParam_def SCIPsetIntParam_def SCIPsetLongintParam_def SCIPsetRealParam_def
      SCIPsetCharParam_def SCIPsetStringParam_def)

lemma call_set_param_write_Returns:
  assumes "call_set H p (\<lambda>s. param_write s name v) = (Returns (), H')"
  shows "\<exists>s q. deref H p = Some s \<and> paramset s name = Some q \<and>
           type_tag (param_data q) = type_tag v \<and> param_accepts q v \<and>
           H' = poke H p (s\<lparr>paramset := (paramset s)(name \<mapsto> q\<lparr>param_data := v\<rparr>)\<rparr>)"
  using assms
  by (auto simp: call_set_def param_write_def SCIPgetParam_def SCIPparamGetType_def call_def
      split: option.splits if_splits)

lemma get_scip_param_stored:
  assumes "deref H p = Some s" and "paramset s name = Some q" and "param_data q = v"
  shows "get_scip_param H p (param_type v) name = Returns v"
  using assms
  by (cases v)
    (simp_all add: get_scip_param_def param_type_def call_get_def param_read_def call_def
      SCIPgetParam_def get_scip_param_Bool_def get_scip_param_Int_def
      get_scip_param_LongInt_def get_scip_param_Real_def get_scip_param_Char_def
      get_scip_param_String_def SCIPgetBoolParam_def SCIPgetIntParam_def
      SCIPgetLongintParam_def SCIPgetRealParam_def SCIPgetCharParam_def SCIPgetStringParam_def)

lemma get_after_set:
  assumes "set_scip_param H p name arg = (Returns (), H')"
  shows "get_scip_param H' p (param_type (passed_value arg)) name = Returns (passed_value arg)"
proof -
  let ?v = "passed_value arg"
  from assms obtain s q where live: "deref H p = Some s"
    and H': "H' = poke H p (s\<lparr>paramset := (paramset s)(name \<mapsto> q\<lparr>param_data := ?v\<rparr>)\<rparr>)"
    unfolding set_scip_param_write by (blast dest: call_set_param_write_Returns)
  have "deref H' p = Some (s\<lparr>paramset := (paramset s)(name \<mapsto> q\<lparr>param_data := ?v\<rparr>)\<rparr>)"
    unfolding H' using live by (rule deref_poke)
  then show ?thesis
    by (rule get_scip_param_stored [where q = "q\<lparr>param_data := ?v\<rparr>"]) simp_all
qed

lemma set_scip_param_returns:
  assumes "deref H p = Some s" and "paramset s name = Some q"
    and "SCIPparamGetType q = type_tag (passed_value arg)" and "param_accepts q (passed_value arg)"
  shows "\<exists>H'. set_scip_param H p name arg = (Returns (), H')"
  using assms
  by (simp add: set_scip_param_write call_set_def param_write_def SCIPgetParam_def call_def)

lemma get_typed:
  assumes "get_scip_param H p (param_type v) name = Returns v"
  shows "(\<forall>x. v = BoolV x \<longrightarrow> get_scip_param_Bool H p name = Returns x) \<and>
    (\<forall>x. v = IntV x \<longrightarrow> get_scip_param_Int H p name = Returns x) \<and>
    (\<forall>x. v = LongIntV x \<longrightarrow> get_scip_param_LongInt H p name = Returns x) \<and>
    (\<forall>x. v = RealV x \<longrightarrow> get_scip_param_Real H p name = Returns x) \<and>
    (\<forall>x. v = CharV x \<longrightarrow> get_scip_param_Char H p name = Returns x) \<and>
    (\<forall>x. v = StringV x \<longrightarrow> get_scip_param_String H p name = Returns x)"
proof (intro conjI allI impI)
  fix x assume "v = BoolV x"
  with assms show "get_scip_param_Bool H p name = Returns x"
    by (cases "get_scip_param_Bool H p name") (simp_all add: get_scip_param_def param_type_def)
next
  fix x assume "v = IntV x"
  with assms show "get_scip_param_Int H p name = Returns x"
    by (cases "get_scip_param_Int H p name") (simp_all add: get_scip_param_def param_type_def)
next
  fix x assume "v = LongIntV x"
  with assms show "get_scip_param_LongInt H p name = Returns x"
    by (cases "get_scip_param_LongInt H p name") (simp_all add: get_scip_param_def param_type_def)
next
  fix x assume "v = RealV x"
  with assms show "get_scip_param_Real H p name = Returns x"
    by (cases "get_scip_param_Real H p name") (simp_all add: get_scip_param_def param_type_def)
next
  fix x assume "v = CharV x"
  with assms show "get_scip_param_Char H p name = Returns x"
    by (cases "get_scip_param_Char H p name") (simp_all add: get_scip_param_def param_type_def)
next
  fix x assume "v = StringV x"
  with assms show "get_scip_param_String H p name = Returns x"
    by (cases "get_scip_param_String H p name") (simp_all add: get_scip_param_def param_type_def)
qed

lemma c_str_id: "c_str x = x \<longleftrightarrow> CHR 0x00 \<notin> set x"
  by (auto simp: c_str_def takeWhile_eq_all_conv)

lemma demo_live_1: "deref demo_heap (Some (Suc 0)) = Some demo_problem"
  by (simp add: deref_def demo_heap_def)

lemma demo_paramset: "paramset demo_problem = demo_params"
  by (simp add: demo_problem_def)

text \<open>
  C7. When a write through \<open>internal::set_scip_param\<close> returns, the read of the same
  name through \<open>internal::get_scip_param\<close> at the type of the value that was passed
  on returns that value. For a \<open>SCIP_Bool\<close>, \<open>int\<close>, \<open>SCIP_Longint\<close>,
  \<open>SCIP_Real\<close>, \<open>char\<close> and \<open>const char*\<close> it is the written value; for a
  \<open>std::string\<close> it is \<open>value.c_str()\<close>, the characters before the first zero
  byte, which is the written value exactly when that has no zero byte in it. The write
  returns whenever the pointer is live and the instance has a parameter of that name and
  type that accepts the value.
\<close>

theorem set_then_get_param:
  "(\<forall>H'. set_scip_param H p name arg = (Returns (), H') \<longrightarrow>
      get_scip_param H' p (param_type (passed_value arg)) name = Returns (passed_value arg) \<and>
      (\<forall>x. arg = Arg_SCIP_Bool x \<longrightarrow> get_scip_param_Bool H' p name = Returns x) \<and>
      (\<forall>x. arg = Arg_int x \<longrightarrow> get_scip_param_Int H' p name = Returns x) \<and>
      (\<forall>x. arg = Arg_SCIP_Longint x \<longrightarrow> get_scip_param_LongInt H' p name = Returns x) \<and>
      (\<forall>x. arg = Arg_SCIP_Real x \<longrightarrow> get_scip_param_Real H' p name = Returns x) \<and>
      (\<forall>x. arg = Arg_char x \<longrightarrow> get_scip_param_Char H' p name = Returns x) \<and>
      (\<forall>x. arg = Arg_c_string x \<longrightarrow> get_scip_param_String H' p name = Returns x) \<and>
      (\<forall>x. arg = Arg_std_string x \<longrightarrow>
         get_scip_param_String H' p name = Returns (c_str x) \<and>
         (get_scip_param_String H' p name = Returns x \<longleftrightarrow> CHR 0x00 \<notin> set x))) \<and>
   (\<forall>s q. deref H p = Some s \<longrightarrow> paramset s name = Some q \<longrightarrow>
      SCIPparamGetType q = type_tag (passed_value arg) \<longrightarrow>
      param_accepts q (passed_value arg) \<longrightarrow>
      (\<exists>H'. set_scip_param H p name arg = (Returns (), H')))"
proof (intro conjI allI impI)
  fix s q
  assume "deref H p = Some s" and "paramset s name = Some q"
    and "SCIPparamGetType q = type_tag (passed_value arg)"
    and "param_accepts q (passed_value arg)"
  then show "\<exists>H'. set_scip_param H p name arg = (Returns (), H')"
    by (rule set_scip_param_returns)
next
  fix H'
  assume set: "set_scip_param H p name arg = (Returns (), H')"
  note g = get_after_set [OF set]
  note t = get_typed [OF g]
  {
    show "get_scip_param H' p (param_type (passed_value arg)) name = Returns (passed_value arg)"
      by (rule g)
  next
    fix x assume "arg = Arg_SCIP_Bool x"
    with t show "get_scip_param_Bool H' p name = Returns x"
      by (simp add: passed_value_def)
  next
    fix x assume "arg = Arg_int x"
    with t show "get_scip_param_Int H' p name = Returns x"
      by (simp add: passed_value_def)
  next
    fix x assume "arg = Arg_SCIP_Longint x"
    with t show "get_scip_param_LongInt H' p name = Returns x"
      by (simp add: passed_value_def)
  next
    fix x assume "arg = Arg_SCIP_Real x"
    with t show "get_scip_param_Real H' p name = Returns x"
      by (simp add: passed_value_def)
  next
    fix x assume "arg = Arg_char x"
    with t show "get_scip_param_Char H' p name = Returns x"
      by (simp add: passed_value_def)
  next
    fix x assume "arg = Arg_c_string x"
    with t show "get_scip_param_String H' p name = Returns x"
      by (simp add: passed_value_def)
  next
    fix x assume "arg = Arg_std_string x"
    with t show cut: "get_scip_param_String H' p name = Returns (c_str x)"
      by (simp add: passed_value_def)
    from cut show "get_scip_param_String H' p name = Returns x \<longleftrightarrow> CHR 0x00 \<notin> set x"
      using c_str_id [of x] by auto
  }
qed


theorem set_then_get_param_witness:
  "(\<exists>H'. set_scip_param demo_heap (Some 1) ''conflict/enable'' (Arg_SCIP_Bool False) =
        (Returns (), H') \<and>
      get_scip_param_Bool H' (Some 1) ''conflict/enable'' = Returns False) \<and>
   (\<exists>H'. set_scip_param demo_heap (Some 1) ''randomization/randomseedshift'' (Arg_int 7) =
        (Returns (), H') \<and>
      get_scip_param_Int H' (Some 1) ''randomization/randomseedshift'' = Returns 7) \<and>
   (\<exists>H'. set_scip_param demo_heap (Some 1) ''limits/nodes'' (Arg_SCIP_Longint 1000) =
        (Returns (), H') \<and>
      get_scip_param_LongInt H' (Some 1) ''limits/nodes'' = Returns 1000) \<and>
   (\<exists>H'. set_scip_param demo_heap (Some 1) ''limits/time'' (Arg_SCIP_Real 60) =
        (Returns (), H') \<and>
      get_scip_param_Real H' (Some 1) ''limits/time'' = Returns 60) \<and>
   (\<exists>H'. set_scip_param demo_heap (Some 1) ''lp/pricing'' (Arg_char CHR ''d'') =
        (Returns (), H') \<and>
      get_scip_param_Char H' (Some 1) ''lp/pricing'' = Returns CHR ''d'') \<and>
   (\<exists>H'. set_scip_param demo_heap (Some 1) ''nlp/solver'' (Arg_c_string ''ipopt'') =
        (Returns (), H') \<and>
      get_scip_param_String H' (Some 1) ''nlp/solver'' = Returns ''ipopt'') \<and>
   (\<exists>H'. set_scip_param demo_heap (Some 1) ''nlp/solver'' (Arg_std_string ''ipopt'') =
        (Returns (), H') \<and>
      get_scip_param_String H' (Some 1) ''nlp/solver'' = Returns ''ipopt'')"
proof -
  have live: "deref demo_heap (Some 1) = Some demo_problem"
    by (simp add: demo_live_1)
  have tags: "SCIPparamGetType \<lparr>param_data = BoolV True, param_accepts = any_value\<rparr> =
      type_tag (passed_value (Arg_SCIP_Bool False))"
    "SCIPparamGetType \<lparr>param_data = IntV 0, param_accepts = nonnegative_int\<rparr> =
      type_tag (passed_value (Arg_int 7))"
    "SCIPparamGetType \<lparr>param_data = LongIntV (- 1), param_accepts = any_value\<rparr> =
      type_tag (passed_value (Arg_SCIP_Longint 1000))"
    "SCIPparamGetType \<lparr>param_data = RealV 3600, param_accepts = any_value\<rparr> =
      type_tag (passed_value (Arg_SCIP_Real 60))"
    "SCIPparamGetType \<lparr>param_data = CharV CHR ''l'', param_accepts = any_value\<rparr> =
      type_tag (passed_value (Arg_char CHR ''d''))"
    "SCIPparamGetType \<lparr>param_data = StringV [], param_accepts = any_value\<rparr> =
      type_tag (passed_value (Arg_c_string ''ipopt''))"
    "SCIPparamGetType \<lparr>param_data = StringV [], param_accepts = any_value\<rparr> =
      type_tag (passed_value (Arg_std_string ''ipopt''))"
    by (simp_all add: SCIPparamGetType_def type_tag_def passed_value_def)
  have params: "paramset demo_problem ''conflict/enable'' =
      Some \<lparr>param_data = BoolV True, param_accepts = any_value\<rparr>"
    "paramset demo_problem ''randomization/randomseedshift'' =
      Some \<lparr>param_data = IntV 0, param_accepts = nonnegative_int\<rparr>"
    "paramset demo_problem ''limits/nodes'' =
      Some \<lparr>param_data = LongIntV (- 1), param_accepts = any_value\<rparr>"
    "paramset demo_problem ''limits/time'' =
      Some \<lparr>param_data = RealV 3600, param_accepts = any_value\<rparr>"
    "paramset demo_problem ''lp/pricing'' =
      Some \<lparr>param_data = CharV CHR ''l'', param_accepts = any_value\<rparr>"
    "paramset demo_problem ''nlp/solver'' =
      Some \<lparr>param_data = StringV [], param_accepts = any_value\<rparr>"
    by (simp_all add: demo_paramset demo_params_def)
  have ok: "param_accepts \<lparr>param_data = IntV 0, param_accepts = nonnegative_int\<rparr>
      (passed_value (Arg_int 7))"
    "\<And>d x. param_accepts \<lparr>param_data = d, param_accepts = any_value\<rparr> x"
    by (simp_all add: nonnegative_int_def any_value_def passed_value_def)
  have rt: "\<exists>H'. set_scip_param demo_heap (Some 1) name arg = (Returns (), H') \<and>
      (\<forall>x. arg = Arg_SCIP_Bool x \<longrightarrow> get_scip_param_Bool H' (Some 1) name = Returns x) \<and>
      (\<forall>x. arg = Arg_int x \<longrightarrow> get_scip_param_Int H' (Some 1) name = Returns x) \<and>
      (\<forall>x. arg = Arg_SCIP_Longint x \<longrightarrow>
         get_scip_param_LongInt H' (Some 1) name = Returns x) \<and>
      (\<forall>x. arg = Arg_SCIP_Real x \<longrightarrow> get_scip_param_Real H' (Some 1) name = Returns x) \<and>
      (\<forall>x. arg = Arg_char x \<longrightarrow> get_scip_param_Char H' (Some 1) name = Returns x) \<and>
      (\<forall>x. arg = Arg_c_string x \<longrightarrow> get_scip_param_String H' (Some 1) name = Returns x) \<and>
      (\<forall>x. arg = Arg_std_string x \<longrightarrow>
         (get_scip_param_String H' (Some 1) name = Returns x \<longleftrightarrow> CHR 0x00 \<notin> set x))"
    if "paramset demo_problem name = Some q"
      and "SCIPparamGetType q = type_tag (passed_value arg)"
      and "param_accepts q (passed_value arg)" for name arg q
  proof -
    note t = set_then_get_param [of demo_heap "Some 1" name arg]
    from t [THEN conjunct2, rule_format, OF live that] obtain H' where
      set: "set_scip_param demo_heap (Some 1) name arg = (Returns (), H')" ..
    from t [THEN conjunct1, rule_format, OF set] set show ?thesis
      by blast
  qed
  from rt [OF params(1) tags(1) ok(2)] rt [OF params(2) tags(2) ok(1)]
    rt [OF params(3) tags(3) ok(2)] rt [OF params(4) tags(4) ok(2)]
    rt [OF params(5) tags(5) ok(2)] rt [OF params(6) tags(6) ok(2)]
    rt [OF params(6) tags(7) ok(2)]
  show ?thesis
    by auto
qed

text \<open>
  A \<open>std::string\<close> with a zero byte in it: the write returns, and the read gives back
  the two characters before the zero byte only.
\<close>

theorem std_string_round_trip_counterexample:
  "fst (set_scip_param demo_heap (Some 1) ''nlp/solver''
          (Arg_std_string [CHR ''a'', CHR ''b'', CHR 0x00, CHR ''c''])) = Returns () \<and>
   get_scip_param_String
     (snd (set_scip_param demo_heap (Some 1) ''nlp/solver''
             (Arg_std_string [CHR ''a'', CHR ''b'', CHR 0x00, CHR ''c''])))
     (Some 1) ''nlp/solver'' = Returns ''ab'' \<and>
   ''ab'' \<noteq> [CHR ''a'', CHR ''b'', CHR 0x00, CHR ''c'']"
proof -
  let ?arg = "Arg_std_string [CHR ''a'', CHR ''b'', CHR 0x00, CHR ''c'']"
  have cut: "passed_value ?arg = StringV ''ab''"
    by (simp add: passed_value_def c_str_def)
  have "deref demo_heap (Some 1) = Some demo_problem"
    by (simp add: demo_live_1)
  moreover have "paramset demo_problem ''nlp/solver'' =
      Some \<lparr>param_data = StringV [], param_accepts = any_value\<rparr>"
    by (simp add: demo_paramset demo_params_def)
  moreover have "SCIPparamGetType \<lparr>param_data = StringV [], param_accepts = any_value\<rparr> =
      type_tag (passed_value ?arg)"
    by (simp add: cut SCIPparamGetType_def type_tag_def)
  moreover have "param_accepts \<lparr>param_data = StringV [], param_accepts = any_value\<rparr>
      (passed_value ?arg)"
    by (simp add: any_value_def)
  ultimately obtain H' where
    set: "set_scip_param demo_heap (Some 1) ''nlp/solver'' ?arg = (Returns (), H')"
    using set_scip_param_returns by blast
  from get_after_set [OF set] have "get_scip_param H' (Some 1) (param_type (StringV ''ab''))
      ''nlp/solver'' = Returns (StringV ''ab'')"
    by (simp only: cut)
  from get_typed [OF this] have "get_scip_param_String H' (Some 1) ''nlp/solver'' = Returns ''ab''"
    by simp
  with set show ?thesis
    by simp
qed

text \<open>
  The failures of the accessors of \<^verbatim>\<open>model.cpp\<close> on a handle that owns a live
  instance. For a name the instance has no parameter of, \<open>get_param_type\<close>, every
  typed read and every typed write throw \<open>UnknownParameter\<close>. For a parameter that
  exists, \<open>get_param_type\<close> returns its declared type, a read or a write at any other
  type throws \<open>TypeMismatch\<close>, and a read at the declared type returns the stored value
  as it is. A failed write leaves the heap as it was.
\<close>

lemma typed_accessors_report_errors:
  assumes "deref H (get_scip_ptr h) = Some s"
  shows "(paramset s name = None \<longrightarrow>
            get_param_type H h name = Throws UnknownParameter \<and>
            get_scip_param H (get_scip_ptr h) T name = Throws UnknownParameter \<and>
            set_scip_param H (get_scip_ptr h) name arg = (Throws UnknownParameter, H)) \<and>
         (\<forall>q. paramset s name = Some q \<longrightarrow>
            get_param_type H h name = Returns (param_type (param_data q)) \<and>
            (param_type (param_data q) \<noteq> T \<longrightarrow>
               get_scip_param H (get_scip_ptr h) T name = Throws TypeMismatch) \<and>
            (param_type (param_data q) = T \<longrightarrow>
               get_scip_param H (get_scip_ptr h) T name = Returns (param_data q)) \<and>
            (param_type (param_data q) \<noteq> param_type (passed_value arg) \<longrightarrow>
               set_scip_param H (get_scip_ptr h) name arg = (Throws TypeMismatch, H)))"
proof (intro conjI allI impI)
  assume none: "paramset s name = None"
  show "get_param_type H h name = Throws UnknownParameter"
    using assms none by (simp add: get_param_type_def SCIPgetParam_def UnknownParameter_def)
  show "get_scip_param H (get_scip_ptr h) T name = Throws UnknownParameter"
    using assms none
    by (cases T)
      (simp_all add: get_scip_param_def call_get_def param_read_def call_def
        SCIPgetParam_def get_scip_param_Bool_def get_scip_param_Int_def
        get_scip_param_LongInt_def get_scip_param_Real_def get_scip_param_Char_def
        get_scip_param_String_def SCIPgetBoolParam_def SCIPgetIntParam_def
        SCIPgetLongintParam_def SCIPgetRealParam_def SCIPgetCharParam_def
        SCIPgetStringParam_def UnknownParameter_def)
  show "set_scip_param H (get_scip_ptr h) name arg = (Throws UnknownParameter, H)"
    using assms none
    by (simp add: set_scip_param_write call_set_def param_write_def SCIPgetParam_def call_def
        UnknownParameter_def poke_same)
next
  fix q
  assume some: "paramset s name = Some q"
  show "get_param_type H h name = Returns (param_type (param_data q))"
    using assms some
    by (cases "param_data q")
      (simp_all add: get_param_type_def SCIPgetParam_def SCIPparamGetType_def type_tag_def
        param_type_def)
  {
    assume "param_type (param_data q) \<noteq> T"
    then show "get_scip_param H (get_scip_ptr h) T name = Throws TypeMismatch"
      using assms some
      by (cases T; cases "param_data q")
        (simp_all add: get_scip_param_def call_get_def param_read_def call_def param_type_def
          SCIPgetParam_def get_scip_param_Bool_def get_scip_param_Int_def
          get_scip_param_LongInt_def get_scip_param_Real_def get_scip_param_Char_def
          get_scip_param_String_def SCIPgetBoolParam_def SCIPgetIntParam_def
          SCIPgetLongintParam_def SCIPgetRealParam_def SCIPgetCharParam_def
          SCIPgetStringParam_def TypeMismatch_def)
  }
  {
    assume "param_type (param_data q) = T"
    then show "get_scip_param H (get_scip_ptr h) T name = Returns (param_data q)"
      using get_scip_param_stored [OF assms some refl] by simp
  }
  {
    assume "param_type (param_data q) \<noteq> param_type (passed_value arg)"
    then have "type_tag (param_data q) \<noteq> type_tag (passed_value arg)"
      by (cases "passed_value arg"; cases "param_data q")
        (simp_all add: param_type_def type_tag_def)
    then show "set_scip_param H (get_scip_ptr h) name arg = (Throws TypeMismatch, H)"
      using assms some
      by (simp add: set_scip_param_write call_set_def param_write_def SCIPgetParam_def
          SCIPparamGetType_def call_def TypeMismatch_def poke_same)
  }
qed

text \<open>
  A \<open>std::string\<close> name is looked up by its C string: a name with a zero byte in it
  finds the parameter that the characters before the zero byte name.
\<close>

lemma get_param_type_std_string_prefix:
  "get_param_type_std_string demo_heap \<lparr>scip = Some 1\<rparr>
     (''limits/time'' @ [CHR 0x00, CHR ''x'']) = Returns ParamType_Real \<and>
   demo_params (''limits/time'' @ [CHR 0x00, CHR ''x'']) = None"
proof -
  have "c_str (''limits/time'' @ [CHR 0x00, CHR ''x'']) = ''limits/time''"
    by (simp add: c_str_def)
  moreover have "get_param_type demo_heap \<lparr>scip = Some 1\<rparr> ''limits/time'' =
      Returns ParamType_Real"
    by (simp add: get_param_type_def get_scip_ptr_def demo_live_1 SCIPgetParam_def
        demo_paramset demo_params_def SCIPparamGetType_def type_tag_def)
  moreover have "demo_params (''limits/time'' @ [CHR 0x00, CHR ''x'']) = None"
    by (simp add: demo_params_def)
  ultimately show ?thesis
    by (simp add: get_param_type_std_string_def)
qed

text \<open>The conversion of a string to a \<open>char\<close> takes the strings of one character.\<close>

lemma Cast_SFINAE_char_single:
  "Cast_SFINAE_char val = Returns c \<longleftrightarrow> val = [c]"
  by (cases val) (auto simp: Cast_SFINAE_char_def)

section \<open>The seed discards the sign\<close>

lemma sint_uminus_c_int:
  assumes "sint (n :: c_int) \<noteq> - (2 ^ 31)"
  shows "sint (- n) = - sint n"
proof -
  have "- (2 ^ 31) \<le> sint n" and "sint n < 2 ^ 31"
    using sint_ge [of n] sint_lt [of n] by simp_all
  with assms have "- (2 ^ 31) \<le> - sint n" and "- sint n < 2 ^ 31"
    by simp_all
  then have "signed_take_bit 31 (- sint n) = - sint n"
    by (simp add: signed_take_bit_int_eq_self)
  then show ?thesis
    by (simp add: sint_word_minus)
qed

lemma sint_least_c_int:
  assumes "sint (n :: c_int) = - (2 ^ 31)"
  shows "- n = n"
proof -
  have "word_of_int (sint n) = (word_of_int (- (2 ^ 31)) :: c_int)"
    using assms by simp
  then have "n = - (2 ^ 31)"
    by simp
  then show ?thesis
    by simp
qed

lemma std_abs_uminus: "std_abs (- n) = std_abs n"
proof (cases "sint n = - (2 ^ 31)")
  case True
  then show ?thesis
    by (simp add: sint_least_c_int)
next
  case False
  then have m: "sint (- n) = - sint n"
    by (rule sint_uminus_c_int)
  have "- 2147483648 \<le> sint n" and "sint n < 2147483648"
    using sint_ge [of n] sint_lt [of n] by simp_all
  with False m show ?thesis
    by (auto simp: std_abs_def signed_eq_0_iff)
qed

lemma std_abs_magnitude:
  assumes "std_abs n = Some m"
  shows "sint m = \<bar>sint n\<bar>"
  using assms sint_uminus_c_int [of n]
  by (auto simp: std_abs_def split: if_splits)

lemma get_Int_after_set_Int:
  assumes "set_scip_param_Int H p name x = (Returns (), H')"
  shows "get_scip_param_Int H' p name = Returns x"
proof -
  have "set_scip_param H p name (Arg_int x) = (Returns (), H')"
    using assms by (simp add: set_scip_param_def)
  then have "get_scip_param H' p (param_type (passed_value (Arg_int x))) name =
      Returns (passed_value (Arg_int x))"
    by (rule get_after_set)
  then show ?thesis
    by (cases "get_scip_param_Int H' p name")
      (simp_all add: get_scip_param_def param_type_def passed_value_def)
qed

text \<open>
  C9. \<open>seed(v)\<close> and \<open>seed(-v)\<close> are the same call: same result, same heap. When
  \<open>seed(v)\<close> returns, \<open>seed()\<close> then reads the magnitude of \<open>v\<close>. \<open>std::abs\<close>
  is defined for every \<open>int\<close> but the least one, and with it \<open>seed(v)\<close> returns
  whenever the instance has the seed parameter as an \<open>int\<close> that accepts the magnitude.
\<close>

theorem seed_discards_sign:
  "seed_set H h (- v) = seed_set H h v \<and>
   (\<forall>H'. seed_set H h v = (Returns (), H') \<longrightarrow>
      (\<exists>r. seed H' h = Returns r \<and> sint r = \<bar>sint v\<bar>)) \<and>
   (sint v \<noteq> - (2 ^ 31) \<longrightarrow> std_abs v \<noteq> None) \<and>
   (\<forall>s q m. deref H (get_scip_ptr h) = Some s \<longrightarrow>
      paramset s ''randomization/randomseedshift'' = Some q \<longrightarrow>
      SCIPparamGetType q = SCIP_PARAMTYPE_INT \<longrightarrow>
      std_abs v = Some m \<longrightarrow> param_accepts q (IntV m) \<longrightarrow>
      (\<exists>H'. seed_set H h v = (Returns (), H')))"
proof (intro conjI allI impI)
  show "seed_set H h (- v) = seed_set H h v"
    by (simp add: seed_set_def std_abs_uminus)
next
  fix H'
  assume set: "seed_set H h v = (Returns (), H')"
  then obtain m where m: "std_abs v = Some m"
    and "set_scip_param_Int H (get_scip_ptr h) ''randomization/randomseedshift'' m = (Returns (), H')"
    by (auto simp: seed_set_def set_param_explicit_Int_def split: option.splits)
  then have "seed H' h = Returns m"
    by (simp add: seed_def get_param_explicit_Int_def get_Int_after_set_Int)
  moreover have "sint m = \<bar>sint v\<bar>"
    using m by (rule std_abs_magnitude)
  ultimately show "\<exists>r. seed H' h = Returns r \<and> sint r = \<bar>sint v\<bar>"
    by blast
next
  assume "sint v \<noteq> - (2 ^ 31)"
  then show "std_abs v \<noteq> None"
    by (simp add: std_abs_def)
next
  fix s q m
  assume "deref H (get_scip_ptr h) = Some s"
    and "paramset s ''randomization/randomseedshift'' = Some q"
    and "SCIPparamGetType q = SCIP_PARAMTYPE_INT"
    and "std_abs v = Some m" and "param_accepts q (IntV m)"
  then show "\<exists>H'. seed_set H h v = (Returns (), H')"
    by (simp add: seed_set_def set_param_explicit_Int_def set_scip_param_Int_def call_set_def
        SCIPsetIntParam_def param_write_def SCIPgetParam_def type_tag_def call_def)
qed

theorem seed_discards_sign_witness:
  "seed_set demo_heap \<lparr>scip = Some 1\<rparr> (- 5) = seed_set demo_heap \<lparr>scip = Some 1\<rparr> 5 \<and>
   (\<exists>H'. seed_set demo_heap \<lparr>scip = Some 1\<rparr> (- 5) = (Returns (), H') \<and>
      (\<exists>r. seed H' \<lparr>scip = Some 1\<rparr> = Returns r \<and> sint r = 5))"
proof -
  note t = seed_discards_sign [where H = demo_heap and h = "\<lparr>scip = Some 1\<rparr>" and v = "- 5"]
  have live: "deref demo_heap (get_scip_ptr \<lparr>scip = Some 1\<rparr>) = Some demo_problem"
    by (simp add: get_scip_ptr_def demo_live_1)
  have q: "paramset demo_problem ''randomization/randomseedshift'' =
      Some \<lparr>param_data = IntV 0, param_accepts = nonnegative_int\<rparr>"
    by (simp add: demo_paramset demo_params_def)
  have tag: "SCIPparamGetType \<lparr>param_data = IntV 0, param_accepts = nonnegative_int\<rparr> =
      SCIP_PARAMTYPE_INT"
    by (simp add: SCIPparamGetType_def type_tag_def)
  have m: "std_abs (- 5) = Some 5"
    by (simp add: std_abs_def)
  have ok: "param_accepts \<lparr>param_data = IntV 0, param_accepts = nonnegative_int\<rparr> (IntV 5)"
    by (simp add: nonnegative_int_def)
  from t live q tag m ok obtain H' where
    H': "seed_set demo_heap \<lparr>scip = Some 1\<rparr> (- 5) = (Returns (), H')"
    by blast
  with t have "\<exists>r. seed H' \<lparr>scip = Some 1\<rparr> = Returns r \<and> sint r = \<bar>sint (- 5 :: c_int)\<bar>"
    by blast
  then have "\<exists>r. seed H' \<lparr>scip = Some 1\<rparr> = Returns r \<and> sint r = 5"
    by simp
  moreover from t have "seed_set demo_heap \<lparr>scip = Some 1\<rparr> (- (- 5)) =
      seed_set demo_heap \<lparr>scip = Some 1\<rparr> (- 5)"
    by blast
  ultimately show ?thesis
    using H' by auto
qed

section \<open>Extracting observations\<close>





lemma length_static_variable_features [simp]: "length (static_variable_features var) = 5"
  by (simp add: static_variable_features_def)

lemma length_dynamic_variable_features [simp]: "length (dynamic_variable_features var) = 15"
  by (simp add: dynamic_variable_features_def)

lemma length_static_row_features [simp]: "length (static_row_features row) = 2"
  by (simp add: static_row_features_def)

lemma length_dynamic_row_features [simp]: "length (dynamic_row_features row) = 3"
  by (simp add: dynamic_row_features_def)















text \<open>
  C2. With \<open>done\<close> true, \<open>NodeBipartite::extract\<close> returns no observation and
  leaves the extractor as it was, whatever the heap, the handle, the \<open>use_cache\<close>
  setting and the state of the cache.
\<close>

theorem done_gives_no_observation:
  "NodeBipartite_extract H this model True = (Returns None, this)"
  by (simp add: NodeBipartite_extract_def)

theorem done_gives_no_observation_witness:
  "NodeBipartite_extract demo_heap (NodeBipartite_init True) \<lparr>scip = Some 0\<rparr> True =
     (Returns None, NodeBipartite_init True) \<and>
   NodeBipartite_extract demo_heap
     ((NodeBipartite_init True)\<lparr>cache_computed := True\<rparr>) \<lparr>scip = Some 0\<rparr> True =
     (Returns None, (NodeBipartite_init True)\<lparr>cache_computed := True\<rparr>) \<and>
   NodeBipartite_extract demo_heap (NodeBipartite_init False) \<lparr>scip = None\<rparr> True =
     (Returns None, NodeBipartite_init False)"
  using done_gives_no_observation [of demo_heap "NodeBipartite_init True" "\<lparr>scip = Some 0\<rparr>"]
    done_gives_no_observation [of demo_heap "(NodeBipartite_init True)\<lparr>cache_computed := True\<rparr>"
      "\<lparr>scip = Some 0\<rparr>"]
    done_gives_no_observation [of demo_heap "NodeBipartite_init False" "\<lparr>scip = None\<rparr>"]
  by (simp only: simp_thms)






end
